theory Spec2Isabelle
  imports Complex_Main "HOL-Library.Sublist"
begin

section \<open>JavaScript values\<close>

subsection \<open>Numbers\<close>

text \<open>
  A JavaScript number is modelled by the value of a finite IEEE-754 double, a real number.
  Comparisons of doubles are comparisons of their values. An arithmetic operation and a
  decimal literal round the exact result to the nearest double, ties to the even
  significand (\<open>fround\<close>). The exponent range is taken as unbounded: overflow and
  subnormal numbers do not occur for the values of this engine, which lie between
  \<open>1 / 16\<close> and \<open>2 ^ 53\<close>.
\<close>

fun ilog2 :: "nat \<Rightarrow> nat" where
  "ilog2 n = (if n < 2 then 0 else Suc (ilog2 (n div 2)))"

declare ilog2.simps [simp del]

definition pow2 :: "int \<Rightarrow> real" where
  "pow2 e = (if 0 \<le> e then 2 ^ nat e else 1 / 2 ^ nat (- e))"

text \<open>The exponent \<open>e\<close> with \<open>2 ^ e \<le> x < 2 ^ (e + 1)\<close>, for positive \<open>x\<close>.\<close>

definition binade :: "real \<Rightarrow> int" where
  "binade x =
     (if 1 \<le> x then int (ilog2 (nat \<lfloor>x\<rfloor>))
      else - int (let m = nat \<lceil>1 / x\<rceil> in if m \<le> 1 then 0 else Suc (ilog2 (m - 1))))"

definition round_half_even :: "real \<Rightarrow> int" where
  "round_half_even x =
     (let n = \<lfloor>x\<rfloor>; r = x - of_int n
      in if r < 1 / 2 then n else if 1 / 2 < r then n + 1 else if even n then n else n + 1)"

definition fround :: "real \<Rightarrow> real" where
  "fround x =
     (if x = 0 then 0
      else let a = \<bar>x\<bar>; q = pow2 (binade a - 52); m = of_int (round_half_even (a / q)) * q
           in if x < 0 then - m else m)"

definition fadd :: "real \<Rightarrow> real \<Rightarrow> real" where
  "fadd x y = fround (x + y)"

definition fmul :: "real \<Rightarrow> real \<Rightarrow> real" where
  "fmul x y = fround (x * y)"

text \<open>\<^verbatim>\<open>ToIntegerOrInfinity\<close> on a finite number: truncation towards zero.\<close>

definition trunc :: "real \<Rightarrow> int" where
  "trunc x = (if 0 \<le> x then \<lfloor>x\<rfloor> else \<lceil>x\<rceil>)"

subsection \<open>Strings and arrays\<close>

text \<open>
  A string is its sequence of code units, here the code units below 256.
  \<^verbatim>\<open>toLowerCase\<close> maps \<open>A\<close>..\<open>Z\<close> and the Latin-1 capitals to their small letters;
  \<^verbatim>\<open>trim\<close> strips white space and line terminators from both ends;
  \<^verbatim>\<open>s.includes(k)\<close> holds when \<open>k\<close> occurs in \<open>s\<close> as a contiguous run.
\<close>

definition lower_char :: "char \<Rightarrow> char" where
  "lower_char c =
     (let n = (of_char c :: nat)
      in if (65 \<le> n \<and> n \<le> 90) \<or> (192 \<le> n \<and> n \<le> 222 \<and> n \<noteq> 215) then char_of (n + 32) else c)"

definition toLowerCase :: "string \<Rightarrow> string" where
  "toLowerCase s = map lower_char s"

definition is_space :: "char \<Rightarrow> bool" where
  "is_space c = ((of_char c :: nat) \<in> {9, 10, 11, 12, 13, 32, 160})"

definition trim :: "string \<Rightarrow> string" where
  "trim s = rev (dropWhile is_space (rev (dropWhile is_space s)))"

fun str_includes :: "string \<Rightarrow> string \<Rightarrow> bool" where
  "str_includes [] k = (k = [])"
| "str_includes (c # cs) k = (prefix k (c # cs) \<or> str_includes cs k)"

text \<open>
  \<^verbatim>\<open>xs.slice(start)\<close> for an integral \<open>start\<close>: a negative start counts from the end,
  and \<^verbatim>\<open>slice(-0)\<close> is \<^verbatim>\<open>slice(0)\<close>, the whole array.
\<close>

definition slice_from :: "int \<Rightarrow> 'a list \<Rightarrow> 'a list" where
  "slice_from start xs =
     (if start < 0 then drop (nat (int (length xs) + start)) xs else drop (nat start) xs)"

text \<open>
  An object is the list of its properties in insertion order; assigning a property keeps
  the place of an existing key (so does \<^verbatim>\<open>Map.prototype.set\<close>).
\<close>

fun set_key :: "'k \<Rightarrow> 'v \<Rightarrow> ('k \<times> 'v) list \<Rightarrow> ('k \<times> 'v) list" where
  "set_key k v [] = [(k, v)]"
| "set_key k v ((k', v') # kvs) = (if k' = k then (k, v) # kvs else (k', v') # set_key k v kvs)"

datatype json =
    JUndefined
  | JString string
  | JNumber real
  | JDate int
  | JObject "(string \<times> json) list"

type_synonym object = "(string \<times> json) list"

text \<open>
  Thrown values: \<^verbatim>\<open>new Error(message)\<close>, the \<^verbatim>\<open>TypeError\<close> of a property read on \<^verbatim>\<open>null\<close> or
  \<^verbatim>\<open>undefined\<close>, and the \<^verbatim>\<open>SyntaxError\<close> of \<^verbatim>\<open>JSON.parse\<close>.
\<close>

datatype error = Error string | TypeError | SyntaxError

text \<open>
  An asynchronous call returns (\<open>Inr\<close>) or throws (\<open>Inl\<close>). A \<^verbatim>\<open>catch\<close> that answers
  \<^verbatim>\<open>[]\<close> is \<open>degrade\<close>.
\<close>

definition raises :: "error + 'a \<Rightarrow> bool" where
  "raises r = (case r of Inl e \<Rightarrow> True | Inr v \<Rightarrow> False)"

definition degrade :: "error + 'a list \<Rightarrow> 'a list" where
  "degrade r = (case r of Inl e \<Rightarrow> [] | Inr xs \<Rightarrow> xs)"

section \<open>Recent Buffer: \<^verbatim>\<open>src/memory/ShortTermMemory.js\<close>\<close>

text \<open>
  A memory item is an object. The fields below are the properties that the memory engine
  reads or writes; an absent property is \<open>None\<close>. Dates are epoch milliseconds.
\<close>

type_synonym userId = string

record memoryItem =
  item_id :: "string option"
  timestamp :: "int option"
  item_type :: "string option"
  content :: "string option"
  platform :: "string option"
  importance :: "real option"
  userMessage :: "string option"
  botResponse :: "string option"
  metadata :: "object option"

text \<open>
  \<^verbatim>\<open>this.memory = new Map()\<close> (userId to array of items) and
  \<^verbatim>\<open>this.maxItems = parseInt(process.env.SHORT_MEMORY_LIMIT) || 50\<close>: the integer that
  the variable holds, and 50 when it is unset, not a number, or zero. A negative
  integer is taken as it is.
\<close>

record ShortTermMemory =
  memory :: "userId \<rightharpoonup> memoryItem list"
  maxItems :: int

definition ShortTermMemory_constructor :: "int option \<Rightarrow> ShortTermMemory" where
  "ShortTermMemory_constructor env =
     \<lparr>memory = Map.empty,
      maxItems = (case env of None \<Rightarrow> 50 | Some n \<Rightarrow> if n = 0 then 50 else n)\<rparr>"

text \<open>
  \<^verbatim>\<open>add(userId, memoryItem)\<close>: the item is \<^verbatim>\<open>{id: this.generateId(), timestamp: new Date(), ...memoryItem}\<close>,
  so a property of \<open>memoryItem\<close> wins over the generated one. The generated id and the
  clock are the inputs \<open>newId\<close> and \<open>now\<close>. \<^verbatim>\<open>splice(0, k)\<close> removes the first \<open>k\<close> items,
  all of them when \<open>k\<close> is more than the length.
\<close>

definition stamp :: "string \<Rightarrow> int \<Rightarrow> memoryItem \<Rightarrow> memoryItem" where
  "stamp newId now memoryItem =
     memoryItem\<lparr>item_id := (case item_id memoryItem of None \<Rightarrow> Some newId | Some i \<Rightarrow> Some i),
                timestamp := (case timestamp memoryItem of None \<Rightarrow> Some now | Some t \<Rightarrow> Some t)\<rparr>"

definition ShortTermMemory_add ::
  "string \<Rightarrow> int \<Rightarrow> userId \<Rightarrow> memoryItem \<Rightarrow> ShortTermMemory \<Rightarrow> string option \<times> ShortTermMemory" where
  "ShortTermMemory_add newId now uid memoryItem s =
     (let userMemory = (case memory s uid of None \<Rightarrow> [] | Some xs \<Rightarrow> xs);
          item = stamp newId now memoryItem;
          pushed = userMemory @ [item];
          kept = (if int (length pushed) > maxItems s
                  then drop (nat (int (length pushed) - maxItems s)) pushed else pushed)
      in (item_id item, s\<lparr>memory := (memory s)(uid \<mapsto> kept)\<rparr>))"

text \<open>\<^verbatim>\<open>getRecent(userId, limit)\<close> is \<^verbatim>\<open>userMemory.slice(-limit).reverse()\<close>.\<close>

definition ShortTermMemory_getRecent :: "ShortTermMemory \<Rightarrow> userId \<Rightarrow> int \<Rightarrow> memoryItem list" where
  "ShortTermMemory_getRecent s uid limit =
     (case memory s uid of None \<Rightarrow> []
      | Some userMemory \<Rightarrow> rev (slice_from (- limit) userMemory))"

definition ShortTermMemory_getCount :: "ShortTermMemory \<Rightarrow> userId \<Rightarrow> nat" where
  "ShortTermMemory_getCount s uid =
     (case memory s uid of None \<Rightarrow> 0 | Some userMemory \<Rightarrow> length userMemory)"

text \<open>\<^verbatim>\<open>getOldest(userId, limit)\<close> is \<^verbatim>\<open>userMemory.slice(0, limit)\<close>.\<close>

definition ShortTermMemory_getOldest :: "ShortTermMemory \<Rightarrow> userId \<Rightarrow> nat \<Rightarrow> memoryItem list" where
  "ShortTermMemory_getOldest s uid limit =
     (case memory s uid of None \<Rightarrow> [] | Some userMemory \<Rightarrow> take limit userMemory)"

text \<open>
  \<^verbatim>\<open>cleanup(userId, keepCount)\<close>: when the array is longer than \<open>keepCount\<close> (a number,
  not always integral) it is replaced by \<^verbatim>\<open>userMemory.slice(-keepCount)\<close>.
\<close>

definition ShortTermMemory_cleanup :: "userId \<Rightarrow> real \<Rightarrow> ShortTermMemory \<Rightarrow> ShortTermMemory" where
  "ShortTermMemory_cleanup uid keepCount s =
     (case memory s uid of None \<Rightarrow> s
      | Some userMemory \<Rightarrow>
          if of_nat (length userMemory) > keepCount
          then s\<lparr>memory := (memory s)(uid \<mapsto> slice_from (trunc (- keepCount)) userMemory)\<rparr>
          else s)"

text \<open>\<^verbatim>\<open>clear(userId)\<close> deletes the user's key.\<close>

definition ShortTermMemory_clear :: "userId \<Rightarrow> ShortTermMemory \<Rightarrow> ShortTermMemory" where
  "ShortTermMemory_clear uid s =
     (if memory s uid \<noteq> None then s\<lparr>memory := (memory s)(uid := None)\<rparr> else s)"

text \<open>A run of \<^verbatim>\<open>add\<close> calls for one user; each call brings its generated id and clock value.\<close>

definition add_all ::
  "(string \<times> int \<times> memoryItem) list \<Rightarrow> userId \<Rightarrow> ShortTermMemory \<Rightarrow> ShortTermMemory" where
  "add_all calls uid s =
     foldl (\<lambda>st (newId, now, item). snd (ShortTermMemory_add newId now uid item st)) s calls"

definition appended :: "(string \<times> int \<times> memoryItem) list \<Rightarrow> memoryItem list" where
  "appended calls = map (\<lambda>(newId, now, item). stamp newId now item) calls"

definition buffer :: "ShortTermMemory \<Rightarrow> userId \<Rightarrow> memoryItem list" where
  "buffer s uid = (case memory s uid of None \<Rightarrow> [] | Some xs \<Rightarrow> xs)"

section \<open>Durable Store: \<^verbatim>\<open>src/memory/LongTermMemory.js\<close>\<close>

text \<open>
  The table \<^verbatim>\<open>long_term_memory\<close>: rows in rowid order, and the \<^verbatim>\<open>AUTOINCREMENT\<close>
  sequence. \<^verbatim>\<open>this.db\<close> is \<^verbatim>\<open>null\<close> until \<^verbatim>\<open>initialize()\<close> has opened the database;
  a call on the closed store fails with a \<^verbatim>\<open>TypeError\<close>, which each method handles in
  its own \<^verbatim>\<open>catch\<close>. A failing SQLite call is modelled for the read \<^verbatim>\<open>getRelevant\<close> only.
  \<^verbatim>\<open>JSON.stringify\<close> is the parameter \<open>stringify\<close>.
\<close>

record row =
  row_id :: nat
  user_id :: userId
  row_content :: string
  row_metadata :: string
  row_importance :: real
  row_timestamp :: int
  created_at :: int
  updated_at :: int

record database =
  rows :: "row list"
  last_id :: nat

type_synonym LongTermMemory = "database option"

text \<open>
  \<^verbatim>\<open>store(userId, memoryData)\<close> destructures \<^verbatim>\<open>importance = 0.5\<close> and \<^verbatim>\<open>metadata = {}\<close>,
  binds \<^verbatim>\<open>timestamp || new Date()\<close>, inserts one row and returns \<^verbatim>\<open>result.lastID\<close>.
  An error is rethrown.
\<close>

definition json_opt :: "string option \<Rightarrow> json" where
  "json_opt v = (case v of None \<Rightarrow> JUndefined | Some s \<Rightarrow> JString s)"

definition inserted_row :: "(json \<Rightarrow> string) \<Rightarrow> int \<Rightarrow> userId \<Rightarrow> memoryItem \<Rightarrow> nat \<Rightarrow> row" where
  "inserted_row stringify now uid memoryData lastID =
     (let imp = (case importance memoryData of None \<Rightarrow> 1 / 2 | Some i \<Rightarrow> i);
          meta = (case metadata memoryData of None \<Rightarrow> [] | Some m \<Rightarrow> m);
          contentStr = stringify (JObject
             [(''userMessage'', json_opt (userMessage memoryData)),
              (''botResponse'', json_opt (botResponse memoryData)),
              (''timestamp'', (case timestamp memoryData of None \<Rightarrow> JUndefined | Some t \<Rightarrow> JDate t))]);
          metadataStr = stringify (JObject meta)
      in \<lparr>row_id = lastID, user_id = uid, row_content = contentStr,
          row_metadata = metadataStr, row_importance = imp,
          row_timestamp = (case timestamp memoryData of None \<Rightarrow> now | Some t \<Rightarrow> t),
          created_at = now, updated_at = now\<rparr>)"

definition LongTermMemory_store ::
  "(json \<Rightarrow> string) \<Rightarrow> int \<Rightarrow> userId \<Rightarrow> memoryItem \<Rightarrow> LongTermMemory \<Rightarrow> (error + nat) \<times> LongTermMemory" where
  "LongTermMemory_store stringify now uid memoryData ltm =
     (case ltm of
        None \<Rightarrow> (Inl TypeError, ltm)
      | Some db \<Rightarrow>
          let lastID = Suc (last_id db);
              r = inserted_row stringify now uid memoryData lastID
          in (Inr lastID, Some (db\<lparr>rows := rows db @ [r], last_id := lastID\<rparr>)))"

text \<open>
  \<^verbatim>\<open>update(id, updates)\<close> sets \<^verbatim>\<open>updated_at\<close> and each of \<^verbatim>\<open>content\<close>, \<^verbatim>\<open>metadata\<close>,
  \<^verbatim>\<open>importance\<close> that is not \<^verbatim>\<open>undefined\<close>, on the row with that id; the result is
  \<^verbatim>\<open>changes > 0\<close>, and \<^verbatim>\<open>false\<close> on an error.
\<close>

record updates =
  upd_content :: "json option"
  upd_metadata :: "object option"
  upd_importance :: "real option"

definition update_row :: "(json \<Rightarrow> string) \<Rightarrow> int \<Rightarrow> updates \<Rightarrow> row \<Rightarrow> row" where
  "update_row stringify now u r =
     r\<lparr>updated_at := now,
       row_content := (case upd_content u of None \<Rightarrow> row_content r
                        | Some (JString s) \<Rightarrow> s
                        | Some c \<Rightarrow> stringify c),
       row_metadata := (case upd_metadata u of None \<Rightarrow> row_metadata r
                         | Some m \<Rightarrow> stringify (JObject m)),
       row_importance := (case upd_importance u of None \<Rightarrow> row_importance r | Some i \<Rightarrow> i)\<rparr>"

definition LongTermMemory_update ::
  "(json \<Rightarrow> string) \<Rightarrow> int \<Rightarrow> nat \<Rightarrow> updates \<Rightarrow> LongTermMemory \<Rightarrow> bool \<times> LongTermMemory" where
  "LongTermMemory_update stringify now i u ltm =
     (case ltm of
        None \<Rightarrow> (False, ltm)
      | Some db \<Rightarrow>
          (\<exists>r \<in> set (rows db). row_id r = i,
           Some (db\<lparr>rows := map (\<lambda>r. if row_id r = i then update_row stringify now u r else r) (rows db)\<rparr>)))"

text \<open>\<^verbatim>\<open>clear(userId)\<close> deletes the user's rows and returns their number; an error is rethrown.\<close>

definition LongTermMemory_clear :: "userId \<Rightarrow> LongTermMemory \<Rightarrow> (error + nat) \<times> LongTermMemory" where
  "LongTermMemory_clear uid ltm =
     (case ltm of
        None \<Rightarrow> (Inl TypeError, ltm)
      | Some db \<Rightarrow>
          (Inr (length (filter (\<lambda>r. user_id r = uid) (rows db))),
           Some (db\<lparr>rows := filter (\<lambda>r. user_id r \<noteq> uid) (rows db)\<rparr>)))"

text \<open>
  \<^verbatim>\<open>cleanup(options)\<close> destructures \<^verbatim>\<open>maxAge = 365\<close> (days), \<^verbatim>\<open>minImportance = 0.1\<close> and
  \<^verbatim>\<open>maxRecords = 10000\<close>. The cutoff is the clock moved back by \<open>maxAge\<close> days (days of
  86400000 ms; the source moves the local calendar date, which differs by an hour across
  a change of daylight-saving time). The first statement deletes the rows with \<^verbatim>\<open>timestamp < cutoff AND importance < minImportance\<close>.
  When more than \<open>maxRecords\<close> rows remain, the second one deletes the
  \<^verbatim>\<open>ORDER BY timestamp ASC LIMIT excess\<close> rows, rows of equal timestamp in rowid order.
  The value returned is \<^verbatim>\<open>result1.changes\<close>, and 0 on an error.
\<close>

record options =
  maxAge :: "nat option"
  minImportance :: "real option"
  maxRecords :: "nat option"

definition expired :: "int \<Rightarrow> real \<Rightarrow> row \<Rightarrow> bool" where
  "expired cutoffDate minImp r = (row_timestamp r < cutoffDate \<and> row_importance r < minImp)"

definition delete_oldest :: "nat \<Rightarrow> row list \<Rightarrow> row list" where
  "delete_oldest excess rs =
     (let ids = map row_id (take excess (sort_key row_timestamp rs))
      in filter (\<lambda>r. row_id r \<notin> set ids) rs)"

definition LongTermMemory_cleanup :: "int \<Rightarrow> options \<Rightarrow> LongTermMemory \<Rightarrow> nat \<times> LongTermMemory" where
  "LongTermMemory_cleanup now opts ltm =
     (case ltm of
        None \<Rightarrow> (0, ltm)
      | Some db \<Rightarrow>
          let maxAge' = (case maxAge opts of None \<Rightarrow> 365 | Some d \<Rightarrow> d);
              minImp = (case minImportance opts of None \<Rightarrow> fround (1 / 10) | Some i \<Rightarrow> i);
              maxRec = (case maxRecords opts of None \<Rightarrow> 10000 | Some n \<Rightarrow> n);
              cutoffDate = now - int maxAge' * 86400000;
              rows1 = filter (\<lambda>r. \<not> expired cutoffDate minImp r) (rows db);
              changes1 = length (filter (expired cutoffDate minImp) (rows db));
              total = length rows1;
              rows2 = (if total > maxRec then delete_oldest (total - maxRec) rows1 else rows1)
          in (changes1, Some (db\<lparr>rows := rows2\<rparr>)))"

text \<open>
  \<^verbatim>\<open>getRelevant(userId, query, limit)\<close> runs
  \<^verbatim>\<open>SELECT * FROM long_term_memory WHERE user_id = ? AND (content LIKE ? OR metadata LIKE ?) ORDER BY importance DESC, timestamp DESC LIMIT ?\<close>
  with the pattern \<^verbatim>\<open>%query%\<close>, and maps each row to an object with
  \<^verbatim>\<open>JSON.parse(row.content)\<close> and \<^verbatim>\<open>JSON.parse(row.metadata || '{}')\<close>. The whole body is in
  a \<^verbatim>\<open>try\<close> whose \<^verbatim>\<open>catch\<close> logs and returns \<^verbatim>\<open>[]\<close>. What the code takes from outside the
  repository is the record \<open>runtime\<close>: SQLite's \<^verbatim>\<open>LIKE\<close>, \<^verbatim>\<open>JSON.parse\<close> (\<open>None\<close> for a
  \<^verbatim>\<open>SyntaxError\<close>), and the error with which the driver's \<^verbatim>\<open>db.all\<close> rejects, when it does.
  Rows that are equal in importance and timestamp come in rowid order.
\<close>

record runtime =
  sql_like :: "string \<Rightarrow> string \<Rightarrow> bool"
  json_parse :: "string \<Rightarrow> json option"
  db_error :: "error option"

record longTermResult =
  lt_id :: nat
  lt_content :: json
  lt_metadata :: json
  lt_importance :: real
  lt_timestamp :: int

definition select_relevant :: "(string \<Rightarrow> string \<Rightarrow> bool) \<Rightarrow> row list \<Rightarrow> userId \<Rightarrow> string \<Rightarrow> nat \<Rightarrow> row list" where
  "select_relevant like rs uid query limit =
     (let searchTerm = ''%'' @ query @ ''%'';
          found = filter (\<lambda>r. user_id r = uid
                              \<and> (like (row_content r) searchTerm \<or> like (row_metadata r) searchTerm)) rs
      in take limit (sort_key (\<lambda>r. - row_importance r) (sort_key (\<lambda>r. - row_timestamp r) found)))"

fun parse_rows :: "(string \<Rightarrow> json option) \<Rightarrow> row list \<Rightarrow> error + longTermResult list" where
  "parse_rows parse [] = Inr []"
| "parse_rows parse (r # rs) =
     (case parse (row_content r) of
        None \<Rightarrow> Inl SyntaxError
      | Some c \<Rightarrow>
          (case parse (if row_metadata r = [] then ''{}'' else row_metadata r) of
             None \<Rightarrow> Inl SyntaxError
           | Some m \<Rightarrow>
               (case parse_rows parse rs of
                  Inl e \<Rightarrow> Inl e
                | Inr results \<Rightarrow>
                    Inr (\<lparr>lt_id = row_id r, lt_content = c, lt_metadata = m,
                          lt_importance = row_importance r, lt_timestamp = row_timestamp r\<rparr> # results))))"

text \<open>The \<^verbatim>\<open>try\<close> block of \<^verbatim>\<open>getRelevant\<close>, and the method with its \<^verbatim>\<open>catch\<close>.\<close>

definition LongTermMemory_getRelevant_try ::
  "runtime \<Rightarrow> LongTermMemory \<Rightarrow> userId \<Rightarrow> string \<Rightarrow> nat \<Rightarrow> error + longTermResult list" where
  "LongTermMemory_getRelevant_try env ltm uid query limit =
     (case ltm of
        None \<Rightarrow> Inl TypeError
      | Some db \<Rightarrow>
          (case db_error env of
             Some e \<Rightarrow> Inl e
           | None \<Rightarrow> parse_rows (json_parse env) (select_relevant (sql_like env) (rows db) uid query limit)))"

definition LongTermMemory_getRelevant ::
  "runtime \<Rightarrow> LongTermMemory \<Rightarrow> userId \<Rightarrow> string \<Rightarrow> nat \<Rightarrow> longTermResult list" where
  "LongTermMemory_getRelevant env ltm uid query limit =
     degrade (LongTermMemory_getRelevant_try env ltm uid query limit)"

text \<open>The records of the store, and those of one user.\<close>

definition records :: "LongTermMemory \<Rightarrow> row list" where
  "records ltm = (case ltm of None \<Rightarrow> [] | Some db \<Rightarrow> rows db)"

definition records_of :: "LongTermMemory \<Rightarrow> userId \<Rightarrow> row list" where
  "records_of ltm uid = filter (\<lambda>r. user_id r = uid) (records ltm)"

text \<open>A run of writes to the store.\<close>

datatype ltm_write = Store userId memoryItem | Update nat updates

fun write_importance :: "ltm_write \<Rightarrow> real option" where
  "write_importance (Store uid memoryData) = importance memoryData"
| "write_importance (Update i u) = upd_importance u"

fun apply_write :: "(json \<Rightarrow> string) \<Rightarrow> int \<Rightarrow> ltm_write \<Rightarrow> LongTermMemory \<Rightarrow> LongTermMemory" where
  "apply_write stringify now (Store uid memoryData) ltm =
     snd (LongTermMemory_store stringify now uid memoryData ltm)"
| "apply_write stringify now (Update i u) ltm = snd (LongTermMemory_update stringify now i u ltm)"

definition apply_writes :: "(json \<Rightarrow> string) \<Rightarrow> int \<Rightarrow> ltm_write list \<Rightarrow> LongTermMemory \<Rightarrow> LongTermMemory" where
  "apply_writes stringify now ws ltm = foldl (\<lambda>l w. apply_write stringify now w l) ltm ws"

definition in_unit :: "real \<Rightarrow> bool" where
  "in_unit v = (0 \<le> v \<and> v \<le> 1)"

section \<open>Semantic Index: class \<^verbatim>\<open>RAGMemory\<close> in \<^verbatim>\<open>src/memory/MemoryManager.js\<close>\<close>

text \<open>
  \<^verbatim>\<open>this.documents\<close> is a \<^verbatim>\<open>Map\<close> from id to document, created by \<^verbatim>\<open>initialize()\<close>
  and \<^verbatim>\<open>undefined\<close> before. \<^verbatim>\<open>this.client\<close> and \<^verbatim>\<open>this.collection\<close> are set to \<^verbatim>\<open>null\<close> by
  the constructor and assigned nowhere else, so every call takes the in-memory branch
  \<^verbatim>\<open>if (!this.client)\<close>; the branches behind it are not modelled.
\<close>

record document =
  doc_id :: string
  doc_content :: string
  doc_metadata :: object

record RAGMemory =
  documents :: "(string \<times> document) list option"

record documentInput =
  input_content :: "string option"
  input_metadata :: "object option"

text \<open>
  \<^verbatim>\<open>generateDocumentId(content, metadata)\<close>: the first 16 hexadecimal digits of the
  SHA-256 digest of the content followed by \<^verbatim>\<open>JSON.stringify(metadata)\<close>. The digest (in
  hexadecimal) is the parameter \<open>sha256\<close>.
\<close>

definition generateDocumentId ::
  "(string \<Rightarrow> string) \<Rightarrow> (json \<Rightarrow> string) \<Rightarrow> string \<Rightarrow> object \<Rightarrow> string" where
  "generateDocumentId sha256 stringify c meta = take 16 (sha256 (c @ stringify (JObject meta)))"

text \<open>\<^verbatim>\<open>!content || content.trim().length === 0\<close>\<close>

definition blank :: "string option \<Rightarrow> bool" where
  "blank c = (case c of None \<Rightarrow> True | Some s \<Rightarrow> s = [] \<or> length (trim s) = 0)"

text \<open>
  \<^verbatim>\<open>addDocument(document)\<close>; \<open>nowIso\<close> is \<^verbatim>\<open>new Date().toISOString()\<close>. Every error is
  logged and rethrown.
\<close>

definition RAGMemory_addDocument ::
  "(string \<Rightarrow> string) \<Rightarrow> (json \<Rightarrow> string) \<Rightarrow> string \<Rightarrow> documentInput \<Rightarrow> RAGMemory
     \<Rightarrow> (error + string) \<times> RAGMemory" where
  "RAGMemory_addDocument sha256 stringify nowIso doc s =
     (let meta = (case input_metadata doc of None \<Rightarrow> [] | Some m \<Rightarrow> m)
      in case input_content doc of
           None \<Rightarrow> (Inl (Error ''Document content cannot be empty''), s)
         | Some c \<Rightarrow>
             if blank (Some c) then (Inl (Error ''Document content cannot be empty''), s)
             else let i = generateDocumentId sha256 stringify c meta
                  in case documents s of
                       None \<Rightarrow> (Inl TypeError, s)
                     | Some docs \<Rightarrow>
                         (Inr i,
                          s\<lparr>documents := Some (set_key i
                              \<lparr>doc_id = i, doc_content = c,
                               doc_metadata = set_key ''contentLength'' (JNumber (of_nat (length c)))
                                                (set_key ''addedAt'' (JString nowIso) meta)\<rparr> docs)\<rparr>))"

text \<open>
  \<^verbatim>\<open>search(query, limit)\<close>: an empty or blank query gives \<^verbatim>\<open>[]\<close>; otherwise the documents,
  in the order of the \<^verbatim>\<open>Map\<close>, whose lower-cased content includes the lower-cased query,
  each with similarity \<^verbatim>\<open>0.8\<close> and distance \<^verbatim>\<open>0.2\<close>, cut by \<^verbatim>\<open>slice(0, limit)\<close>. An error
  is logged and gives \<^verbatim>\<open>[]\<close>.
\<close>

record searchResult =
  res_content :: string
  similarity :: real
  distance :: real
  res_metadata :: object

definition matches :: "string \<Rightarrow> document \<Rightarrow> bool" where
  "matches query d = str_includes (toLowerCase (doc_content d)) (toLowerCase query)"

definition hit :: "document \<Rightarrow> searchResult" where
  "hit d = \<lparr>res_content = doc_content d, similarity = fround (4 / 5), distance = fround (1 / 5),
            res_metadata = doc_metadata d\<rparr>"

definition RAGMemory_search :: "RAGMemory \<Rightarrow> string \<Rightarrow> nat \<Rightarrow> searchResult list" where
  "RAGMemory_search s query limit =
     (if blank (Some query) then []
      else case documents s of
             None \<Rightarrow> []
           | Some docs \<Rightarrow> take limit (map hit (filter (matches query) (map snd docs))))"

text \<open>
  The \<^verbatim>\<open>try\<close> block of \<^verbatim>\<open>search\<close> on its own: the one statement of it that can throw is
  the iteration over \<^verbatim>\<open>this.documents\<close> when it is \<^verbatim>\<open>undefined\<close>.
\<close>

definition RAGMemory_search_try :: "RAGMemory \<Rightarrow> string \<Rightarrow> nat \<Rightarrow> error + searchResult list" where
  "RAGMemory_search_try s query limit =
     (if blank (Some query) then Inr []
      else case documents s of
             None \<Rightarrow> Inl TypeError
           | Some docs \<Rightarrow> Inr (take limit (map hit (filter (matches query) (map snd docs)))))"

text \<open>\<^verbatim>\<open>getStatus().totalDocuments\<close> is \<^verbatim>\<open>this.documents ? this.documents.size : 0\<close>.\<close>

definition totalDocuments :: "RAGMemory \<Rightarrow> nat" where
  "totalDocuments s = (case documents s of None \<Rightarrow> 0 | Some docs \<Rightarrow> length docs)"

text \<open>The documents of the index in insertion order.\<close>

definition stored :: "RAGMemory \<Rightarrow> document list" where
  "stored s = (case documents s of None \<Rightarrow> [] | Some docs \<Rightarrow> map snd docs)"

section \<open>Memory Orchestrator: class \<^verbatim>\<open>MemoryManager\<close> in \<^verbatim>\<open>src/memory/MemoryManager.js\<close>\<close>

record MemoryManager =
  shortTermMemory :: ShortTermMemory
  longTermMemory :: LongTermMemory
  ragMemory :: RAGMemory
  isInitialized :: bool

subsection \<open>Context assembly\<close>

text \<open>
  \<^verbatim>\<open>getRelevantContext(userId, query)\<close> throws when the manager is not initialized.
  Otherwise it awaits \<^verbatim>\<open>shortTermMemory.getRecent(userId, 10)\<close>,
  \<^verbatim>\<open>longTermMemory.getRelevant(userId, query, 5)\<close> and \<^verbatim>\<open>ragMemory.search(query, 5)\<close> in turn
  and returns the three results. Its own \<^verbatim>\<open>catch\<close>, which answers
  \<^verbatim>\<open>{ shortTerm: [], longTerm: [], rag: [] }\<close>, is never entered: \<^verbatim>\<open>getRecent\<close> has no statement
  that throws, and \<^verbatim>\<open>getRelevant\<close> and \<^verbatim>\<open>search\<close> catch every error of theirs.
\<close>

record ContextBundle =
  shortTerm :: "memoryItem list"
  longTerm :: "longTermResult list"
  rag :: "searchResult list"

definition MemoryManager_getRelevantContext ::
  "runtime \<Rightarrow> MemoryManager \<Rightarrow> userId \<Rightarrow> string \<Rightarrow> error + ContextBundle" where
  "MemoryManager_getRelevantContext env mm uid query =
     (if \<not> isInitialized mm then Inl (Error ''Memory Manager not initialized'')
      else Inr \<lparr>shortTerm = ShortTermMemory_getRecent (shortTermMemory mm) uid 10,
                longTerm = LongTermMemory_getRelevant env (longTermMemory mm) uid query 5,
                rag = RAGMemory_search (ragMemory mm) query 5\<rparr>)"

subsection \<open>Importance scoring\<close>

definition highImportanceKeywords :: "string list" where
  "highImportanceKeywords = [''important'', ''urgent'', ''critical'', ''remember'']"

definition mediumImportanceKeywords :: "string list" where
  "mediumImportanceKeywords = [''project'', ''task'', ''deadline'', ''meeting'']"

definition messageText :: "string \<Rightarrow> string \<Rightarrow> string" where
  "messageText userMsg botResp = toLowerCase (userMsg @ '' '' @ botResp)"

text \<open>
  \<^verbatim>\<open>calculateImportance(userMessage, botResponse)\<close>: the two \<^verbatim>\<open>forEach\<close> loops are folds over
  the keyword lists, each \<^verbatim>\<open>importance += d\<close> a rounded addition of the literal.
\<close>

definition bump :: "real \<Rightarrow> string \<Rightarrow> real \<Rightarrow> string \<Rightarrow> real" where
  "bump d text imp keyword = (if str_includes text keyword then fadd imp (fround d) else imp)"

definition calculateImportance :: "string \<Rightarrow> string \<Rightarrow> real" where
  "calculateImportance userMsg botResp =
     (let text = messageText userMsg botResp;
          i1 = foldl (bump (1 / 5) text) (1 / 2) highImportanceKeywords;
          i2 = foldl (bump (1 / 10) text) i1 mediumImportanceKeywords;
          i3 = (if length botResp > 500 then fadd i2 (fround (1 / 10)) else i2);
          i4 = (if length userMsg > 200 then fadd i3 (fround (1 / 10)) else i3)
      in min i4 1)"

text \<open>The exact value of the sum that the claim writes down.\<close>

definition hits :: "string list \<Rightarrow> string \<Rightarrow> nat" where
  "hits keywords text = card {k \<in> set keywords. str_includes text k}"

definition exact_score :: "string \<Rightarrow> string \<Rightarrow> real" where
  "exact_score userMsg botResp =
     min 1 (1 / 2
            + 1 / 5 * of_nat (hits highImportanceKeywords (messageText userMsg botResp))
            + 1 / 10 * of_nat (hits mediumImportanceKeywords (messageText userMsg botResp))
            + (if length botResp > 500 then 1 / 10 else 0)
            + (if length userMsg > 200 then 1 / 10 else 0))"

text \<open>
  The score after \<open>h\<close> additions of \<^verbatim>\<open>0.2\<close> and then \<open>k\<close> additions of \<^verbatim>\<open>0.1\<close>, and
  the number of additions for a pair of messages.
\<close>

definition add_steps :: "nat \<Rightarrow> nat \<Rightarrow> real" where
  "add_steps h k =
     ((\<lambda>v. fadd v (fround (1 / 10))) ^^ k) (((\<lambda>v. fadd v (fround (1 / 5))) ^^ h) (1 / 2))"

definition high_count :: "string \<Rightarrow> string \<Rightarrow> nat" where
  "high_count userMsg botResp =
     length (filter (str_includes (messageText userMsg botResp)) highImportanceKeywords)"

definition tenth_count :: "string \<Rightarrow> string \<Rightarrow> nat" where
  "tenth_count userMsg botResp =
     length (filter (str_includes (messageText userMsg botResp)) mediumImportanceKeywords)
     + (if length botResp > 500 then 1 else 0) + (if length userMsg > 200 then 1 else 0)"

subsection \<open>Consolidation\<close>

text \<open>
  \<^verbatim>\<open>parseInt(process.env.LONG_MEMORY_THRESHOLD) || 100\<close>: the default when the variable
  is unset, not a number, or zero.
\<close>

definition threshold_of :: "int option \<Rightarrow> int" where
  "threshold_of env = (case env of None \<Rightarrow> 100 | Some n \<Rightarrow> if n = 0 then 100 else n)"

text \<open>\<^verbatim>\<open>memory.importance && memory.importance > 0.7\<close>\<close>

definition important :: "memoryItem \<Rightarrow> bool" where
  "important m = (case importance m of None \<Rightarrow> False | Some v \<Rightarrow> v \<noteq> 0 \<and> fround (7 / 10) < v)"

text \<open>The \<^verbatim>\<open>for\<close> loop over the old memories: a failing \<^verbatim>\<open>store\<close> ends it with the error.\<close>

fun store_important ::
  "(json \<Rightarrow> string) \<Rightarrow> int \<Rightarrow> userId \<Rightarrow> memoryItem list \<Rightarrow> LongTermMemory \<Rightarrow> error option \<times> LongTermMemory" where
  "store_important stringify now uid [] ltm = (None, ltm)"
| "store_important stringify now uid (m # ms) ltm =
     (if important m
      then (case LongTermMemory_store stringify now uid m ltm of
              (Inl e, ltm') \<Rightarrow> (Some e, ltm')
            | (Inr i, ltm') \<Rightarrow> store_important stringify now uid ms ltm')
      else store_important stringify now uid ms ltm)"

text \<open>
  \<^verbatim>\<open>consolidateMemoryIfNeeded(userId)\<close>: when the count is greater than the threshold, the
  important ones of the 20 oldest items are stored and the buffer is cut to
  \<^verbatim>\<open>threshold * 0.8\<close> items. It has no \<^verbatim>\<open>catch\<close>: an error of \<^verbatim>\<open>store\<close> leaves it before
  the cut.
\<close>

definition MemoryManager_consolidateMemoryIfNeeded ::
  "(json \<Rightarrow> string) \<Rightarrow> int \<Rightarrow> int option \<Rightarrow> userId \<Rightarrow> MemoryManager \<Rightarrow> error option \<times> MemoryManager" where
  "MemoryManager_consolidateMemoryIfNeeded stringify now env uid mm =
     (let shortTermCount = ShortTermMemory_getCount (shortTermMemory mm) uid;
          threshold = threshold_of env
      in if int shortTermCount > threshold
         then let oldMemories = ShortTermMemory_getOldest (shortTermMemory mm) uid 20
              in (case store_important stringify now uid oldMemories (longTermMemory mm) of
                    (Some e, ltm') \<Rightarrow> (Some e, mm\<lparr>longTermMemory := ltm'\<rparr>)
                  | (None, ltm') \<Rightarrow>
                      (None, mm\<lparr>longTermMemory := ltm',
                                shortTermMemory :=
                                  ShortTermMemory_cleanup uid (fmul (of_int threshold) (fround (4 / 5)))
                                    (shortTermMemory mm)\<rparr>))
         else (None, mm))"

subsection \<open>Clearing a user's memory\<close>

text \<open>
  \<^verbatim>\<open>clearUserMemory(userId, type = 'all')\<close>; the Semantic Index is shared and is not
  cleared. An error is logged and rethrown.
\<close>

definition MemoryManager_clearUserMemory ::
  "userId \<Rightarrow> string \<Rightarrow> MemoryManager \<Rightarrow> error option \<times> MemoryManager" where
  "MemoryManager_clearUserMemory uid scope mm =
     (let mm1 = (if scope = ''all'' \<or> scope = ''short''
                 then mm\<lparr>shortTermMemory := ShortTermMemory_clear uid (shortTermMemory mm)\<rparr> else mm)
      in if scope = ''all'' \<or> scope = ''long''
         then (case LongTermMemory_clear uid (longTermMemory mm1) of
                 (Inl e, ltm') \<Rightarrow> (Some e, mm1\<lparr>longTermMemory := ltm'\<rparr>)
               | (Inr n, ltm') \<Rightarrow> (None, mm1\<lparr>longTermMemory := ltm'\<rparr>))
         else (None, mm1))"

section \<open>Concrete states\<close>

text \<open>Small states and inputs on which the operations are evaluated.\<close>

definition plain_item :: memoryItem where
  "plain_item = \<lparr>item_id = None, timestamp = None, item_type = Some ''user_message'',
                  content = Some ''hello'', platform = None, importance = None,
                  userMessage = None, botResponse = None, metadata = None\<rparr>"

definition item_saying :: "string \<Rightarrow> memoryItem" where
  "item_saying c = plain_item\<lparr>content := Some c\<rparr>"

definition small_buffer :: ShortTermMemory where
  "small_buffer = ShortTermMemory_constructor (Some 2)"

definition three_calls :: "(string \<times> int \<times> memoryItem) list" where
  "three_calls =
     [(''a'', 1, item_saying ''one''), (''b'', 2, item_saying ''two''), (''c'', 3, item_saying ''three'')]"

text \<open>Stand-ins for the digest and for \<^verbatim>\<open>JSON.stringify\<close>, and an index built with them.\<close>

definition toy_sha :: "string \<Rightarrow> string" where
  "toy_sha s = s"

definition toy_stringify :: "json \<Rightarrow> string" where
  "toy_stringify j = ''{}''"

definition empty_index :: RAGMemory where
  "empty_index = \<lparr>documents = Some []\<rparr>"

definition doc_of :: "string \<Rightarrow> documentInput" where
  "doc_of c = \<lparr>input_content = Some c, input_metadata = None\<rparr>"

definition foo_index :: RAGMemory where
  "foo_index =
     snd (RAGMemory_addDocument toy_sha toy_stringify ''t2'' (doc_of ''baz'')
       (snd (RAGMemory_addDocument toy_sha toy_stringify ''t1'' (doc_of ''foobar'') empty_index)))"

definition spaced_index :: RAGMemory where
  "spaced_index =
     snd (RAGMemory_addDocument toy_sha toy_stringify ''t1'' (doc_of ''a b'') empty_index)"

text \<open>
  A manager with two users; stand-ins for \<^verbatim>\<open>LIKE\<close> and \<^verbatim>\<open>JSON.parse\<close>; and the manager
  after \<^verbatim>\<open>update(1, {content: 'oops'})\<close>, which leaves a row that is not JSON.
\<close>

definition row_for :: "nat \<Rightarrow> userId \<Rightarrow> real \<Rightarrow> int \<Rightarrow> row" where
  "row_for i uid imp ts =
     \<lparr>row_id = i, user_id = uid, row_content = ''{}'', row_metadata = ''{}'',
      row_importance = imp, row_timestamp = ts, created_at = ts, updated_at = ts\<rparr>"

definition two_user_manager :: MemoryManager where
  "two_user_manager =
     \<lparr>shortTermMemory = \<lparr>memory = [''u'' \<mapsto> [plain_item], ''v'' \<mapsto> [plain_item, plain_item]], maxItems = 50\<rparr>,
      longTermMemory = Some \<lparr>rows = [row_for 1 ''u'' (1 / 2) 10, row_for 2 ''v'' (1 / 2) 20], last_id = 2\<rparr>,
      ragMemory = foo_index,
      isInitialized = True\<rparr>"

definition toy_runtime :: runtime where
  "toy_runtime =
     \<lparr>sql_like = (\<lambda>v pattern. True),
      json_parse = (\<lambda>text. if text = ''{}'' then Some (JObject []) else None),
      db_error = None\<rparr>"

definition corrupt_manager :: MemoryManager where
  "corrupt_manager =
     two_user_manager\<lparr>longTermMemory :=
       snd (LongTermMemory_update toy_stringify 30 1
              \<lparr>upd_content = Some (JString ''oops''), upd_metadata = None, upd_importance = None\<rparr>
              (longTermMemory two_user_manager))\<rparr>"

text \<open>An opened, empty Durable Store; items with a precomputed importance; buffers of 100 and 101 items.\<close>

definition empty_store :: LongTermMemory where
  "empty_store = Some \<lparr>rows = [], last_id = 0\<rparr>"

definition hot_item :: memoryItem where
  "hot_item = plain_item\<lparr>timestamp := Some 5, importance := Some (9 / 10)\<rparr>"

definition overrated_item :: memoryItem where
  "overrated_item = plain_item\<lparr>timestamp := Some 5, importance := Some (3 / 2)\<rparr>"

definition manager_with :: "nat \<Rightarrow> MemoryManager" where
  "manager_with n =
     \<lparr>shortTermMemory = \<lparr>memory = [''u'' \<mapsto> replicate 3 hot_item @ replicate (n - 3) plain_item],
                          maxItems = 200\<rparr>,
      longTermMemory = empty_store,
      ragMemory = empty_index,
      isInitialized = True\<rparr>"

definition two_rows :: LongTermMemory where
  "two_rows =
     Some \<lparr>rows = [row_for 1 ''u'' (9 / 10) 1699999999000, row_for 2 ''u'' (9 / 10) 1699999999500],
           last_id = 2\<rparr>"

section \<open>Evaluating the arithmetic of doubles\<close>

lemma ilog2_numeral:
  "ilog2 (numeral n) = (if (numeral n :: nat) < 2 then 0 else Suc (ilog2 (numeral n div 2)))"
  by (rule ilog2.simps)

lemma ilog2_small: "ilog2 0 = 0" "ilog2 1 = 0" "ilog2 (Suc 0) = 0"
  by (simp_all add: ilog2.simps)

lemmas float_eval = fround_def fadd_def fmul_def binade_def pow2_def round_half_even_def Let_def
  ilog2_numeral ilog2_small

text \<open>The literals \<^verbatim>\<open>0.1\<close>, \<^verbatim>\<open>0.2\<close>, \<^verbatim>\<open>0.7\<close>, \<^verbatim>\<open>0.8\<close> and \<^verbatim>\<open>0.9\<close> as doubles.\<close>

lemma one_tenth: "fround (1 / 10) = 3602879701896397 / 2 ^ 55"
  by (simp add: float_eval)

lemma one_fifth: "fround (1 / 5) = 3602879701896397 / 2 ^ 54"
  by (simp add: float_eval)

lemma seven_tenths: "fround (7 / 10) = 3152519739159347 / 2 ^ 52"
  by (simp add: float_eval)

lemma four_fifths: "fround (4 / 5) = 3602879701896397 / 2 ^ 52"
  by (simp add: float_eval)

lemma nine_tenths: "fround (9 / 10) = 8106479329266893 / 2 ^ 53"
  by (simp add: float_eval)

lemma keep_count_default: "fmul 100 (fround (4 / 5)) = 80"
  by (simp add: float_eval)
section \<open>Properties of the Recent Buffer\<close>

lemma add_maxItems: "maxItems (snd (ShortTermMemory_add newId now uid item s)) = maxItems s"
  by (simp add: ShortTermMemory_add_def Let_def)

lemma add_buffer:
  assumes "0 \<le> maxItems s"
  shows "buffer (snd (ShortTermMemory_add newId now uid item s)) uid =
     (let all = buffer s uid @ [stamp newId now item] in drop (length all - nat (maxItems s)) all)"
proof -
  from assms obtain m where m: "maxItems s = int m"
    by (auto dest: zero_le_imp_eq_int)
  have d: "nat (int n - int m) = n - m" "nat (1 + int n - int m) = Suc n - m" for n
    by linarith+
  show ?thesis
    by (auto simp: ShortTermMemory_add_def buffer_def Let_def m d split: option.splits)
qed

lemma add_memory_Some:
  "memory (snd (ShortTermMemory_add newId now uid item s)) uid \<noteq> None"
  by (simp add: ShortTermMemory_add_def Let_def)

lemma add_all_maxItems: "maxItems (add_all calls uid s) = maxItems s"
  by (induction calls rule: rev_induct) (simp_all add: add_all_def add_maxItems split: prod.splits)

lemma add_all_snoc:
  "add_all (calls @ [(newId, now, item)]) uid s =
     snd (ShortTermMemory_add newId now uid item (add_all calls uid s))"
  by (simp add: add_all_def)

lemma drop_drop_snoc:
  "drop (length (drop (length xs - m) xs @ [y]) - m) (drop (length xs - m) xs @ [y]) =
     drop (length (xs @ [y]) - m) (xs @ [y])"
  by (cases "length xs \<le> m") (auto simp: Suc_diff_le)

lemma add_all_buffer:
  assumes "0 \<le> maxItems s" and "calls \<noteq> []"
  shows "buffer (add_all calls uid s) uid =
       drop (length (buffer s uid @ appended calls) - nat (maxItems s)) (buffer s uid @ appended calls)"
  using assms(2)
proof (induction calls rule: rev_induct)
  case Nil
  then show ?case by simp
next
  case (snoc c calls)
  obtain newId now item where c: "c = (newId, now, item)"
    by (cases c) auto
  have nonneg: "0 \<le> maxItems (add_all calls uid s)"
    using assms(1) by (simp add: add_all_maxItems)
  show ?case
  proof (cases "calls = []")
    case True
    then show ?thesis
      using add_buffer [OF assms(1), of newId now uid item]
      by (simp add: c add_all_def appended_def Let_def)
  next
    case False
    with snoc.IH have IH: "buffer (add_all calls uid s) uid =
        drop (length (buffer s uid @ appended calls) - nat (maxItems s)) (buffer s uid @ appended calls)"
      by simp
    have "buffer (add_all (calls @ [c]) uid s) uid =
        (let all = buffer (add_all calls uid s) uid @ [stamp newId now item]
         in drop (length all - nat (maxItems s)) all)"
      using add_buffer [OF nonneg, of newId now uid item]
      by (simp add: c add_all_snoc add_all_maxItems)
    also have "\<dots> = drop (length ((buffer s uid @ appended calls) @ [stamp newId now item]) - nat (maxItems s))
                        ((buffer s uid @ appended calls) @ [stamp newId now item])"
      unfolding Let_def IH by (rule drop_drop_snoc)
    finally show ?thesis
      by (simp add: c appended_def)
  qed
qed

lemma getCount_buffer: "ShortTermMemory_getCount s uid = length (buffer s uid)"
  by (simp add: ShortTermMemory_getCount_def buffer_def split: option.splits)

lemma getRecent_buffer:
  "ShortTermMemory_getRecent s uid limit = rev (slice_from (- limit) (buffer s uid))"
  by (simp add: ShortTermMemory_getRecent_def buffer_def slice_from_def split: option.splits)

lemma appended_items:
  "appended calls =
     map (\<lambda>(newId, now, item).
            item\<lparr>item_id := Some (case item_id item of None \<Rightarrow> newId | Some i \<Rightarrow> i),
                 timestamp := Some (case timestamp item of None \<Rightarrow> now | Some t \<Rightarrow> t)\<rparr>) calls"
  unfolding appended_def
  by (rule map_cong) (auto simp: stamp_def split: option.splits)

text \<open>
  C5, as stated, fails for a negative capacity, which the constructor accepts: with
  \<^verbatim>\<open>SHORT_MEMORY_LIMIT=-1\<close> one append is more than \<open>maxItems\<close> appends, and it leaves the
  buffer empty, so that the count is 0 and not \<open>maxItems\<close>.
\<close>

theorem negative_capacity_counterexample:
  "maxItems (ShortTermMemory_constructor (Some (- 1))) = - 1
   \<and> maxItems (ShortTermMemory_constructor (Some (- 1))) < int (length [(''a'', 1 :: int, item_saying ''one'')])
   \<and> ShortTermMemory_getCount
        (add_all [(''a'', 1, item_saying ''one'')] ''u'' (ShortTermMemory_constructor (Some (- 1)))) ''u'' = 0
   \<and> int (ShortTermMemory_getCount
        (add_all [(''a'', 1, item_saying ''one'')] ''u'' (ShortTermMemory_constructor (Some (- 1)))) ''u'')
       \<noteq> maxItems (ShortTermMemory_constructor (Some (- 1)))"
  by (simp add: ShortTermMemory_constructor_def add_all_def ShortTermMemory_add_def
      ShortTermMemory_getCount_def Let_def)

text \<open>
  C5, amended. With a capacity \<open>maxItems\<close> that is not negative, after more than
  \<open>maxItems\<close> appends for a user, whatever the buffer held before, the count is
  \<open>maxItems\<close>; \<^verbatim>\<open>getRecent(userId, maxItems)\<close> is the last \<open>maxItems\<close> items in reverse order
  of insertion, each one the item that the caller passed, with the generated id and the
  clock filled in where the caller gave none; and what was dropped is a front part of
  the sequence of everything the buffer received.
\<close>

theorem recent_buffer_overflow:
  assumes "0 \<le> maxItems s" and "maxItems s < int (length calls)"
  shows "int (ShortTermMemory_getCount (add_all calls uid s) uid) = maxItems s
       \<and> ShortTermMemory_getRecent (add_all calls uid s) uid (maxItems s) =
           rev (drop (length calls - nat (maxItems s))
                  (map (\<lambda>(newId, now, item).
                          item\<lparr>item_id := Some (case item_id item of None \<Rightarrow> newId | Some i \<Rightarrow> i),
                               timestamp := Some (case timestamp item of None \<Rightarrow> now | Some t \<Rightarrow> t)\<rparr>)
                       calls))
       \<and> (\<exists>dropped.
             buffer s uid
             @ map (\<lambda>(newId, now, item).
                      item\<lparr>item_id := Some (case item_id item of None \<Rightarrow> newId | Some i \<Rightarrow> i),
                           timestamp := Some (case timestamp item of None \<Rightarrow> now | Some t \<Rightarrow> t)\<rparr>)
                   calls
             = dropped @ buffer (add_all calls uid s) uid)"
proof -
  let ?m = "nat (maxItems s)"
  let ?all = "buffer s uid @ appended calls"
  from assms have ne: "calls \<noteq> []" by auto
  from assms have m: "?m < length calls" "int ?m = maxItems s"
    by simp_all
  have len: "length (appended calls) = length calls"
    by (simp add: appended_def)
  have buf: "buffer (add_all calls uid s) uid = drop (length ?all - ?m) ?all"
    using add_all_buffer [OF assms(1) ne] .
  have buf': "buffer (add_all calls uid s) uid = drop (length calls - ?m) (appended calls)"
    using m(1) by (simp add: buf len)
  have "ShortTermMemory_getCount (add_all calls uid s) uid = ?m"
    using m(1) by (simp add: getCount_buffer buf' len)
  then have count: "int (ShortTermMemory_getCount (add_all calls uid s) uid) = maxItems s"
    using m(2) by simp
  have "slice_from (- maxItems s) (drop (length calls - ?m) (appended calls)) =
      drop (length calls - ?m) (appended calls)"
    using m assms(1) by (simp add: slice_from_def len)
  then have recent: "ShortTermMemory_getRecent (add_all calls uid s) uid (maxItems s) =
      rev (drop (length calls - ?m) (appended calls))"
    by (simp add: getRecent_buffer buf')
  have "?all = take (length ?all - ?m) ?all @ buffer (add_all calls uid s) uid"
    unfolding buf by (rule append_take_drop_id [symmetric])
  then have "\<exists>dropped. ?all = dropped @ buffer (add_all calls uid s) uid" ..
  with count recent show ?thesis
    unfolding appended_items by blast
qed

theorem recent_buffer_overflow_witness:
  "0 \<le> maxItems small_buffer \<and> maxItems small_buffer < int (length three_calls)
   \<and> ShortTermMemory_getCount (add_all three_calls ''u'' small_buffer) ''u'' = 2
   \<and> map content (ShortTermMemory_getRecent (add_all three_calls ''u'' small_buffer) ''u'' 2) =
       [Some ''three'', Some ''two'']
   \<and> map item_id (ShortTermMemory_getRecent (add_all three_calls ''u'' small_buffer) ''u'' 2) =
       [Some ''c'', Some ''b'']
   \<and> map timestamp (ShortTermMemory_getRecent (add_all three_calls ''u'' small_buffer) ''u'' 2) =
       [Some 3, Some 2]"
proof -
  have a: "0 \<le> maxItems small_buffer" "maxItems small_buffer < int (length three_calls)"
    and m: "maxItems small_buffer = 2"
    by (simp_all add: small_buffer_def ShortTermMemory_constructor_def three_calls_def)
  note th = recent_buffer_overflow [OF a, of "''u''"]
  from th have "int (ShortTermMemory_getCount (add_all three_calls ''u'' small_buffer) ''u'') = 2"
    unfolding m by (rule conjunct1)
  then have c: "ShortTermMemory_getCount (add_all three_calls ''u'' small_buffer) ''u'' = 2"
    by simp
  from th have "ShortTermMemory_getRecent (add_all three_calls ''u'' small_buffer) ''u'' 2 =
      [(item_saying ''three'')\<lparr>item_id := Some ''c'', timestamp := Some 3\<rparr>,
       (item_saying ''two'')\<lparr>item_id := Some ''b'', timestamp := Some 2\<rparr>]"
    unfolding m by (simp add: three_calls_def item_saying_def plain_item_def)
  with a c show ?thesis
    by (simp add: item_saying_def plain_item_def)
qed

section \<open>Properties of the Semantic Index\<close>

lemma trim_Nil_iff: "trim s = [] \<longleftrightarrow> (\<forall>c \<in> set s. is_space c)"
proof
  assume "trim s = []"
  then have all: "\<forall>c \<in> set (dropWhile is_space s). is_space c"
    by (simp add: trim_def dropWhile_eq_Nil_conv)
  show "\<forall>c \<in> set s. is_space c"
  proof (rule ccontr)
    assume "\<not> (\<forall>c \<in> set s. is_space c)"
    then have ne: "dropWhile is_space s \<noteq> []"
      by (simp add: dropWhile_eq_Nil_conv)
    then have "\<not> is_space (hd (dropWhile is_space s))"
      by (rule hd_dropWhile)
    moreover from ne have "hd (dropWhile is_space s) \<in> set (dropWhile is_space s)"
      by simp
    ultimately show False
      using all by blast
  qed
next
  assume "\<forall>c \<in> set s. is_space c"
  then have d: "dropWhile is_space s = []"
    by (simp add: dropWhile_eq_Nil_conv)
  show "trim s = []"
    unfolding trim_def d by simp
qed

lemma blank_iff: "blank c \<longleftrightarrow> c = None \<or> (\<exists>s. c = Some s \<and> list_all is_space s)"
  by (cases c) (auto simp: blank_def trim_Nil_iff list_all_iff)

lemma set_key_mem: "\<exists>w. (k, w) \<in> set (set_key k v kvs)"
  by (induction kvs) auto

lemma set_key_length: "(k, w) \<in> set kvs \<Longrightarrow> length (set_key k v kvs) = length kvs"
  by (induction kvs) auto

lemma set_key_twice_length: "length (set_key k v (set_key k w kvs)) = length (set_key k w kvs)"
  using set_key_mem [of k w kvs] by (auto intro: set_key_length)

lemma addDocument_blank:
  assumes "blank (input_content doc)"
  shows "RAGMemory_addDocument sha256 stringify nowIso doc s =
           (Inl (Error ''Document content cannot be empty''), s)"
  using assms by (cases "input_content doc") (simp_all add: RAGMemory_addDocument_def)

text \<open>
  C10. A document whose content is absent, empty or only white space makes
  \<^verbatim>\<open>addDocument\<close> throw \<^verbatim>\<open>Document content cannot be empty\<close>; no id is returned and the
  index is the one before the call.
\<close>

theorem addDocument_blank_throws:
  assumes "input_content doc = None \<or> (\<exists>c. input_content doc = Some c \<and> list_all is_space c)"
  shows "RAGMemory_addDocument sha256 stringify nowIso doc s =
           (Inl (Error ''Document content cannot be empty''), s)"
proof -
  from assms have "blank (input_content doc)"
    by (simp add: blank_iff)
  then show ?thesis
    by (rule addDocument_blank)
qed

theorem addDocument_blank_throws_witness:
  "list_all is_space [CHR '' '', CHR 0x09, CHR 0x0A]
   \<and> RAGMemory_addDocument toy_sha toy_stringify ''t'' (doc_of [CHR '' '', CHR 0x09, CHR 0x0A]) foo_index =
       (Inl (Error ''Document content cannot be empty''), foo_index)"
proof -
  have sp: "list_all is_space [CHR '' '', CHR 0x09, CHR 0x0A]"
    by (simp add: is_space_def)
  then have "input_content (doc_of [CHR '' '', CHR 0x09, CHR 0x0A]) = None
      \<or> (\<exists>c. input_content (doc_of [CHR '' '', CHR 0x09, CHR 0x0A]) = Some c \<and> list_all is_space c)"
    by (simp add: doc_of_def)
  from addDocument_blank_throws [OF this] sp show ?thesis
    by simp
qed

text \<open>
  C7. Adding the same content and metadata twice has the same outcome both times, the
  second call leaves the number of documents unchanged, and the id returned for
  content that is not blank, on an initialized index, is \<open>generateDocumentId\<close> of content
  and metadata: it depends on nothing else.
\<close>

theorem addDocument_idempotent:
  "fst (RAGMemory_addDocument sha256 stringify t2 doc
          (snd (RAGMemory_addDocument sha256 stringify t1 doc s))) =
     fst (RAGMemory_addDocument sha256 stringify t1 doc s)
   \<and> totalDocuments (snd (RAGMemory_addDocument sha256 stringify t2 doc
          (snd (RAGMemory_addDocument sha256 stringify t1 doc s)))) =
     totalDocuments (snd (RAGMemory_addDocument sha256 stringify t1 doc s))
   \<and> (\<forall>c. input_content doc = Some c \<and> \<not> blank (Some c) \<and> documents s \<noteq> None \<longrightarrow>
        fst (RAGMemory_addDocument sha256 stringify t1 doc s) =
          Inr (generateDocumentId sha256 stringify c
                 (case input_metadata doc of None \<Rightarrow> [] | Some m \<Rightarrow> m)))"
proof (cases "blank (input_content doc)")
  case True
  then show ?thesis
    by (auto simp: addDocument_blank)
next
  case False
  then obtain c where c: "input_content doc = Some c" "\<not> blank (Some c)"
    by (cases "input_content doc") (auto simp: blank_def)
  show ?thesis
  proof (cases "documents s")
    case None
    with c show ?thesis
      by (simp add: RAGMemory_addDocument_def Let_def)
  next
    case (Some docs)
    with c show ?thesis
      by (simp add: RAGMemory_addDocument_def Let_def totalDocuments_def set_key_twice_length)
  qed
qed

theorem addDocument_idempotent_witness:
  "fst (RAGMemory_addDocument toy_sha toy_stringify ''t2'' (doc_of ''foobar'')
          (snd (RAGMemory_addDocument toy_sha toy_stringify ''t1'' (doc_of ''foobar'') empty_index))) =
     Inr ''foobar{}''
   \<and> totalDocuments (snd (RAGMemory_addDocument toy_sha toy_stringify ''t2'' (doc_of ''foobar'')
          (snd (RAGMemory_addDocument toy_sha toy_stringify ''t1'' (doc_of ''foobar'') empty_index)))) = 1"
proof -
  have nb: "input_content (doc_of ''foobar'') = Some ''foobar''" "\<not> blank (Some ''foobar'')"
    by (simp_all add: blank_def doc_of_def trim_def is_space_def)
  have one: "totalDocuments (snd (RAGMemory_addDocument toy_sha toy_stringify ''t1'' (doc_of ''foobar'') empty_index)) = 1"
    using nb by (simp add: RAGMemory_addDocument_def Let_def totalDocuments_def empty_index_def)
  have ini: "documents empty_index \<noteq> None"
    by (simp add: empty_index_def)
  from addDocument_idempotent [of toy_sha toy_stringify "''t2''" "doc_of ''foobar''" "''t1''" empty_index]
    nb ini one
  show ?thesis
    by (simp add: generateDocumentId_def toy_sha_def toy_stringify_def doc_of_def)
qed

lemma str_includes_sublist: "str_includes s k \<longleftrightarrow> sublist k s"
  by (induction s) (auto simp: sublist_Cons_right)

lemma foo_index_stored:
  "stored foo_index =
     [\<lparr>doc_id = ''foobar{}'', doc_content = ''foobar'',
       doc_metadata = [(''addedAt'', JString ''t1''), (''contentLength'', JNumber 6)]\<rparr>,
      \<lparr>doc_id = ''baz{}'', doc_content = ''baz'',
       doc_metadata = [(''addedAt'', JString ''t2''), (''contentLength'', JNumber 3)]\<rparr>]"
  by (simp add: foo_index_def stored_def RAGMemory_addDocument_def Let_def blank_def trim_def
      is_space_def doc_of_def empty_index_def generateDocumentId_def toy_sha_def toy_stringify_def)

lemma spaced_index_stored:
  "stored spaced_index =
     [\<lparr>doc_id = ''a b{}'', doc_content = ''a b'',
       doc_metadata = [(''addedAt'', JString ''t1''), (''contentLength'', JNumber 3)]\<rparr>]"
  by (simp add: spaced_index_def stored_def RAGMemory_addDocument_def Let_def blank_def trim_def
      is_space_def doc_of_def empty_index_def generateDocumentId_def toy_sha_def toy_stringify_def)

text \<open>
  C8, as stated, fails for a query that is not empty but blank: the guard
  \<^verbatim>\<open>query.trim().length === 0\<close> answers \<^verbatim>\<open>[]\<close> although a stored content contains the query.
\<close>

theorem search_blank_query_counterexample:
  "'' '' \<noteq> []
   \<and> map doc_content (stored spaced_index) = [''a b'']
   \<and> sublist (toLowerCase '' '') (toLowerCase ''a b'')
   \<and> RAGMemory_search spaced_index '' '' 5 = []"
proof -
  have "str_includes (toLowerCase ''a b'') (toLowerCase '' '')"
    by (simp add: toLowerCase_def lower_char_def)
  then have "sublist (toLowerCase '' '') (toLowerCase ''a b'')"
    by (simp only: str_includes_sublist)
  moreover have "RAGMemory_search spaced_index '' '' 5 = []"
    by (simp add: RAGMemory_search_def blank_def trim_def is_space_def)
  ultimately show ?thesis
    by (simp add: spaced_index_stored)
qed

text \<open>
  C8, amended. For a query with a character that is not white space, \<^verbatim>\<open>search\<close> returns
  the stored documents whose lower-cased content contains the lower-cased query, in
  insertion order, cut to the limit, each with the similarity \<^verbatim>\<open>0.8\<close>. It is a total
  function: an index that was never initialized gives the empty result.
\<close>

theorem search_fallback:
  assumes "\<not> list_all is_space query"
  shows "RAGMemory_search s query limit =
           take limit (map hit (filter (\<lambda>d. sublist (toLowerCase query) (toLowerCase (doc_content d)))
                                  (stored s)))
       \<and> (\<forall>r \<in> set (RAGMemory_search s query limit). similarity r = fround (4 / 5))"
proof -
  from assms have nb: "\<not> blank (Some query)"
    by (simp add: blank_iff)
  have m: "matches query = (\<lambda>d. sublist (toLowerCase query) (toLowerCase (doc_content d)))"
    by (rule ext) (simp add: matches_def str_includes_sublist)
  have eq: "RAGMemory_search s query limit =
      take limit (map hit (filter (\<lambda>d. sublist (toLowerCase query) (toLowerCase (doc_content d)))
                             (stored s)))"
    using nb by (simp add: RAGMemory_search_def stored_def m split: option.splits)
  have "\<forall>r \<in> set (take limit (map hit (filter (\<lambda>d. sublist (toLowerCase query) (toLowerCase (doc_content d)))
                             (stored s)))). similarity r = fround (4 / 5)"
    by (auto dest!: in_set_takeD simp: hit_def)
  with eq show ?thesis
    by simp
qed

theorem search_fallback_witness:
  "\<not> list_all is_space ''foo''
   \<and> map doc_content (stored foo_index) = [''foobar'', ''baz'']
   \<and> map res_content (RAGMemory_search foo_index ''foo'' 5) = [''foobar'']
   \<and> map similarity (RAGMemory_search foo_index ''foo'' 5) = [fround (4 / 5)]"
proof -
  have ns: "\<not> list_all is_space ''foo''"
    by (simp add: is_space_def)
  have f: "filter (\<lambda>d. sublist (toLowerCase ''foo'') (toLowerCase (doc_content d))) (stored foo_index) =
      [\<lparr>doc_id = ''foobar{}'', doc_content = ''foobar'',
        doc_metadata = [(''addedAt'', JString ''t1''), (''contentLength'', JNumber 6)]\<rparr>]"
    by (simp add: foo_index_stored str_includes_sublist [symmetric] toLowerCase_def lower_char_def)
  have st: "map doc_content (stored foo_index) = [''foobar'', ''baz'']"
    by (simp add: foo_index_stored)
  have "RAGMemory_search foo_index ''foo'' 5 =
      [hit \<lparr>doc_id = ''foobar{}'', doc_content = ''foobar'',
            doc_metadata = [(''addedAt'', JString ''t1''), (''contentLength'', JNumber 6)]\<rparr>]"
    using search_fallback [OF ns, of foo_index 5] unfolding f by simp
  with ns st show ?thesis
    by (simp add: hit_def)
qed

section \<open>Properties of the Memory Orchestrator\<close>

subsection \<open>Context assembly\<close>

lemma search_degrade: "RAGMemory_search s query limit = degrade (RAGMemory_search_try s query limit)"
  by (simp add: RAGMemory_search_def RAGMemory_search_try_def degrade_def split: option.splits)

text \<open>Three ways in which the Durable Store fails inside \<^verbatim>\<open>getRelevant\<close>.\<close>

lemma getRelevant_closed: "raises (LongTermMemory_getRelevant_try env None uid query limit)"
  by (simp add: LongTermMemory_getRelevant_try_def raises_def)

lemma getRelevant_rejected:
  "db_error env = Some e \<Longrightarrow> raises (LongTermMemory_getRelevant_try env (Some db) uid query limit)"
  by (simp add: LongTermMemory_getRelevant_try_def raises_def)

lemma parse_rows_corrupt:
  "r \<in> set rs \<Longrightarrow> parse (row_content r) = None \<Longrightarrow> raises (parse_rows parse rs)"
  by (induction rs) (auto simp: raises_def split: option.splits sum.splits)

text \<open>
  C2. On an initialized manager \<^verbatim>\<open>getRelevantContext\<close> returns a bundle, whatever
  happens inside the tiers. Its Recent Buffer part is what \<^verbatim>\<open>getRecent\<close> gives; its
  Durable Store part is empty when the body of \<^verbatim>\<open>getRelevant\<close> raises (closed database,
  rejected query, row that is not JSON) and is the result of that body otherwise; its
  Semantic Index part is empty when the body of \<^verbatim>\<open>search\<close> raises and is the result of
  that body otherwise. So a tier that fails contributes the empty sequence and the
  parts of the other two do not depend on it.
\<close>

theorem getRelevantContext_tier_failure:
  assumes "isInitialized mm"
  shows "\<exists>ctx. MemoryManager_getRelevantContext env mm uid query = Inr ctx
       \<and> shortTerm ctx = ShortTermMemory_getRecent (shortTermMemory mm) uid 10
       \<and> (case LongTermMemory_getRelevant_try env (longTermMemory mm) uid query 5 of
             Inl e \<Rightarrow> longTerm ctx = []
           | Inr found \<Rightarrow> longTerm ctx = found)
       \<and> (case RAGMemory_search_try (ragMemory mm) query 5 of
             Inl e \<Rightarrow> rag ctx = []
           | Inr found \<Rightarrow> rag ctx = found)"
  using assms
  by (simp add: MemoryManager_getRelevantContext_def LongTermMemory_getRelevant_def search_degrade
      degrade_def split: sum.splits)

theorem getRelevantContext_tier_failure_witness:
  "isInitialized corrupt_manager
   \<and> map row_content (records_of (longTermMemory corrupt_manager) ''u'') = [''oops'']
   \<and> raises (LongTermMemory_getRelevant_try toy_runtime (longTermMemory corrupt_manager) ''u'' ''foo'' 5)
   \<and> MemoryManager_getRelevantContext toy_runtime corrupt_manager ''u'' ''foo'' =
       Inr \<lparr>shortTerm = [plain_item], longTerm = [],
            rag = [\<lparr>res_content = ''foobar'', similarity = fround (4 / 5), distance = fround (1 / 5),
                    res_metadata = [(''addedAt'', JString ''t1''), (''contentLength'', JNumber 6)]\<rparr>]\<rparr>"
proof -
  have i: "isInitialized corrupt_manager"
    by (simp add: corrupt_manager_def two_user_manager_def)
  have rs: "records (longTermMemory corrupt_manager) =
      [(row_for 1 ''u'' (1 / 2) 10)\<lparr>updated_at := 30, row_content := ''oops''\<rparr>, row_for 2 ''v'' (1 / 2) 20]"
    by (simp add: corrupt_manager_def two_user_manager_def LongTermMemory_update_def update_row_def
        records_def row_for_def)
  have c: "map row_content (records_of (longTermMemory corrupt_manager) ''u'') = [''oops'']"
    by (simp add: records_of_def rs row_for_def)
  have lt: "LongTermMemory_getRelevant_try toy_runtime (longTermMemory corrupt_manager) ''u'' ''foo'' 5 =
      Inl SyntaxError"
    by (simp add: corrupt_manager_def two_user_manager_def LongTermMemory_update_def update_row_def
        LongTermMemory_getRelevant_try_def select_relevant_def toy_runtime_def row_for_def Let_def)
  have st: "ShortTermMemory_getRecent (shortTermMemory corrupt_manager) ''u'' 10 = [plain_item]"
    by (simp add: corrupt_manager_def two_user_manager_def ShortTermMemory_getRecent_def slice_from_def)
  have sr: "RAGMemory_search_try (ragMemory corrupt_manager) ''foo'' 5 =
      Inr [\<lparr>res_content = ''foobar'', similarity = fround (4 / 5), distance = fround (1 / 5),
                    res_metadata = [(''addedAt'', JString ''t1''), (''contentLength'', JNumber 6)]\<rparr>]"
    using foo_index_stored
    by (simp add: corrupt_manager_def two_user_manager_def RAGMemory_search_try_def stored_def
        blank_def trim_def is_space_def matches_def hit_def toLowerCase_def lower_char_def
        split: option.splits)
  from getRelevantContext_tier_failure [OF i, of toy_runtime "''u''" "''foo''"]
  obtain ctx where b: "MemoryManager_getRelevantContext toy_runtime corrupt_manager ''u'' ''foo'' = Inr ctx"
    "shortTerm ctx = [plain_item]" "longTerm ctx = []"
    "rag ctx = [\<lparr>res_content = ''foobar'', similarity = fround (4 / 5), distance = fround (1 / 5),
                    res_metadata = [(''addedAt'', JString ''t1''), (''contentLength'', JNumber 6)]\<rparr>]"
    unfolding lt st sr by auto
  from b(2-4) have "ctx = \<lparr>shortTerm = [plain_item], longTerm = [],
            rag = [\<lparr>res_content = ''foobar'', similarity = fround (4 / 5), distance = fround (1 / 5),
                    res_metadata = [(''addedAt'', JString ''t1''), (''contentLength'', JNumber 6)]\<rparr>]\<rparr>"
    by (cases ctx) simp
  with i c lt b(1) show ?thesis
    by (simp add: raises_def)
qed

subsection \<open>Clearing a user's memory\<close>

lemma clear_buffer: "buffer (ShortTermMemory_clear uid s) v = (if v = uid then [] else buffer s v)"
  by (simp add: ShortTermMemory_clear_def buffer_def split: option.splits)

lemma clear_records_of:
  "records_of (snd (LongTermMemory_clear uid ltm)) v = (if v = uid then [] else records_of ltm v)"
  by (cases ltm) (auto simp: LongTermMemory_clear_def records_of_def records_def intro: filter_cong)

text \<open>
  C9. Scope \<^verbatim>\<open>short\<close> empties the user's Recent Buffer and leaves the Durable Store and
  the Semantic Index as they were; scope \<^verbatim>\<open>all\<close> leaves the user no item in the Recent
  Buffer and no record in the Durable Store, and leaves the Semantic Index as it was.
  Neither touches the buffer or the records of another user.
\<close>

theorem clearUserMemory_scopes:
  "fst (MemoryManager_clearUserMemory uid ''short'' mm) = None
   \<and> buffer (shortTermMemory (snd (MemoryManager_clearUserMemory uid ''short'' mm))) uid = []
   \<and> ShortTermMemory_getCount (shortTermMemory (snd (MemoryManager_clearUserMemory uid ''short'' mm))) uid = 0
   \<and> longTermMemory (snd (MemoryManager_clearUserMemory uid ''short'' mm)) = longTermMemory mm
   \<and> ragMemory (snd (MemoryManager_clearUserMemory uid ''short'' mm)) = ragMemory mm
   \<and> buffer (shortTermMemory (snd (MemoryManager_clearUserMemory uid ''all'' mm))) uid = []
   \<and> ShortTermMemory_getCount (shortTermMemory (snd (MemoryManager_clearUserMemory uid ''all'' mm))) uid = 0
   \<and> records_of (longTermMemory (snd (MemoryManager_clearUserMemory uid ''all'' mm))) uid = []
   \<and> ragMemory (snd (MemoryManager_clearUserMemory uid ''all'' mm)) = ragMemory mm
   \<and> (\<forall>v scope. v \<noteq> uid \<longrightarrow>
        buffer (shortTermMemory (snd (MemoryManager_clearUserMemory uid scope mm))) v =
          buffer (shortTermMemory mm) v
        \<and> records_of (longTermMemory (snd (MemoryManager_clearUserMemory uid scope mm))) v =
          records_of (longTermMemory mm) v)"
proof -
  have short: "MemoryManager_clearUserMemory uid ''short'' mm =
      (None, mm\<lparr>shortTermMemory := ShortTermMemory_clear uid (shortTermMemory mm)\<rparr>)"
    by (simp add: MemoryManager_clearUserMemory_def)
  have all: "snd (MemoryManager_clearUserMemory uid ''all'' mm) =
      mm\<lparr>shortTermMemory := ShortTermMemory_clear uid (shortTermMemory mm),
         longTermMemory := snd (LongTermMemory_clear uid (longTermMemory mm))\<rparr>"
    by (simp add: MemoryManager_clearUserMemory_def Let_def split: prod.splits sum.splits)
  have frame: "buffer (shortTermMemory (snd (MemoryManager_clearUserMemory uid scope mm))) v =
          buffer (shortTermMemory mm) v
        \<and> records_of (longTermMemory (snd (MemoryManager_clearUserMemory uid scope mm))) v =
          records_of (longTermMemory mm) v" if "v \<noteq> uid" for v scope
    using that clear_records_of [of uid "longTermMemory mm" v]
    by (auto simp: MemoryManager_clearUserMemory_def Let_def clear_buffer
        split: prod.splits sum.splits)
  show ?thesis
    using frame by (simp add: short all clear_buffer clear_records_of getCount_buffer)
qed

theorem clearUserMemory_scopes_witness:
  "''v'' \<noteq> ''u''
   \<and> buffer (shortTermMemory two_user_manager) ''u'' = [plain_item]
   \<and> buffer (shortTermMemory (snd (MemoryManager_clearUserMemory ''u'' ''all'' two_user_manager))) ''u'' = []
   \<and> buffer (shortTermMemory (snd (MemoryManager_clearUserMemory ''u'' ''all'' two_user_manager))) ''v'' =
       [plain_item, plain_item]
   \<and> records_of (longTermMemory (snd (MemoryManager_clearUserMemory ''u'' ''all'' two_user_manager))) ''v'' =
       [row_for 2 ''v'' (1 / 2) 20]"
proof -
  have ne: "''v'' \<noteq> ''u''" by simp
  have b: "buffer (shortTermMemory two_user_manager) ''u'' = [plain_item]"
    "buffer (shortTermMemory two_user_manager) ''v'' = [plain_item, plain_item]"
    by (simp_all add: two_user_manager_def buffer_def)
  have r: "records_of (longTermMemory two_user_manager) ''v'' = [row_for 2 ''v'' (1 / 2) 20]"
    by (simp add: two_user_manager_def records_of_def records_def row_for_def)
  from clearUserMemory_scopes [of "''u''" two_user_manager] ne b r show ?thesis
    by simp
qed

section \<open>Properties of the Durable Store\<close>

lemma inserted_row_importance:
  "row_importance (inserted_row stringify now uid memoryData i) =
     (case importance memoryData of None \<Rightarrow> 1 / 2 | Some v \<Rightarrow> v)"
  by (simp add: inserted_row_def Let_def)

lemma store_opened:
  "LongTermMemory_store stringify now uid memoryData (Some db) =
     (Inr (Suc (last_id db)),
      Some (db\<lparr>rows := rows db @ [inserted_row stringify now uid memoryData (Suc (last_id db))],
               last_id := Suc (last_id db)\<rparr>))"
  by (simp add: LongTermMemory_store_def Let_def)

lemma store_records:
  "records (snd (LongTermMemory_store stringify now uid memoryData ltm)) =
     records ltm @ (case ltm of None \<Rightarrow> []
                    | Some db \<Rightarrow> [inserted_row stringify now uid memoryData (Suc (last_id db))])"
  by (cases ltm) (simp_all add: LongTermMemory_store_def records_def Let_def)

lemma update_records:
  "records (snd (LongTermMemory_update stringify now i u ltm)) =
     map (\<lambda>r. if row_id r = i then update_row stringify now u r else r) (records ltm)"
  by (cases ltm) (simp_all add: LongTermMemory_update_def records_def)

lemma update_row_importance:
  "row_importance (update_row stringify now u r) =
     (case upd_importance u of None \<Rightarrow> row_importance r | Some i \<Rightarrow> i)"
  by (simp add: update_row_def split: option.splits json.splits)

lemma apply_write_in_unit:
  assumes w: "case write_importance w of None \<Rightarrow> True | Some v \<Rightarrow> in_unit v"
      and inv: "\<forall>r \<in> set (records ltm). in_unit (row_importance r)"
  shows "\<forall>r \<in> set (records (apply_write stringify now w ltm)). in_unit (row_importance r)"
proof (cases w)
  case (Store uid memoryData)
  from w Store have "in_unit (row_importance (inserted_row stringify now uid memoryData i))" for i
    by (auto simp: inserted_row_importance in_unit_def split: option.splits)
  with inv show ?thesis
    by (auto simp: Store store_records split: option.splits)
next
  case (Update i u)
  with w inv show ?thesis
    by (auto simp: update_records update_row_importance split: option.splits)
qed

text \<open>
  C3, as stated, fails: \<^verbatim>\<open>store\<close> and \<^verbatim>\<open>update\<close> bind the importance they are given
  to the SQL statement; a value outside the unit interval is stored as it is.
\<close>

theorem importance_not_clamped_counterexample:
  "\<not> in_unit (3 / 2) \<and> \<not> in_unit (- 1)
   \<and> fst (LongTermMemory_store toy_stringify 0 ''u'' overrated_item empty_store) = Inr 1
   \<and> map row_importance (records (apply_writes toy_stringify 0 [Store ''u'' overrated_item] empty_store)) = [3 / 2]
   \<and> map row_importance (records (apply_writes toy_stringify 0
        [Store ''u'' overrated_item,
         Update 1 \<lparr>upd_content = None, upd_metadata = None, upd_importance = Some (- 1)\<rparr>] empty_store)) = [- 1]"
  by (simp add: in_unit_def apply_writes_def LongTermMemory_store_def LongTermMemory_update_def
      inserted_row_def update_row_def Let_def empty_store_def overrated_item_def plain_item_def records_def)

text \<open>
  C3, amended. The importance given to \<^verbatim>\<open>store\<close> (0.5 when absent) or to \<^verbatim>\<open>update\<close> is
  stored as passed, neither clamped nor rejected. So when every importance passed
  explicitly lies in the unit interval, every record has its importance there after any
  run of \<^verbatim>\<open>store\<close> and \<^verbatim>\<open>update\<close> calls.
\<close>

theorem importance_stored_as_passed:
  assumes "\<forall>w \<in> set ws. case write_importance w of None \<Rightarrow> True | Some v \<Rightarrow> in_unit v"
      and "\<forall>r \<in> set (records ltm). in_unit (row_importance r)"
  shows "(\<forall>r \<in> set (records (apply_writes stringify now ws ltm)). in_unit (row_importance r))
       \<and> (\<forall>uid memoryData db v. importance memoryData = Some v \<longrightarrow>
            map row_importance (records (snd (LongTermMemory_store stringify now uid memoryData (Some db)))) =
              map row_importance (rows db) @ [v])
       \<and> (\<forall>i u v r. upd_importance u = Some v \<and> r \<in> set (records ltm) \<and> row_id r = i \<longrightarrow>
            row_importance (update_row stringify now u r)  = v
            \<and> update_row stringify now u r \<in> set (records (snd (LongTermMemory_update stringify now i u ltm))))
       \<and> (\<forall>uid memoryData db. importance memoryData = None \<longrightarrow>
            map row_importance (records (snd (LongTermMemory_store stringify now uid memoryData (Some db)))) =
              map row_importance (rows db) @ [1 / 2])"
proof -
  have inv: "\<forall>r \<in> set (records (apply_writes stringify now ws ltm)). in_unit (row_importance r)"
    using assms
  proof (induction ws arbitrary: ltm)
    case Nil
    then show ?case by (simp add: apply_writes_def)
  next
    case (Cons w ws)
    from Cons.prems have "\<forall>r \<in> set (records (apply_write stringify now w ltm)). in_unit (row_importance r)"
      by (intro apply_write_in_unit) simp_all
    with Cons.prems(1) have
      "\<forall>r \<in> set (records (apply_writes stringify now ws (apply_write stringify now w ltm))).
          in_unit (row_importance r)"
      by (intro Cons.IH) simp_all
    then show ?case by (simp add: apply_writes_def)
  qed
  have st: "map row_importance (records (snd (LongTermMemory_store stringify now uid memoryData (Some db)))) =
      map row_importance (rows db) @ [v]" if "importance memoryData = Some v" for uid memoryData db v
    using that by (simp add: store_opened inserted_row_importance records_def)
  have up: "row_importance (update_row stringify now u r) = v
      \<and> update_row stringify now u r \<in> set (records (snd (LongTermMemory_update stringify now i u ltm)))"
    if "upd_importance u = Some v" "r \<in> set (records ltm)" "row_id r = i" for i u v r
    using that by (auto simp: update_records update_row_importance image_iff intro!: bexI [of _ r])
  have df: "map row_importance (records (snd (LongTermMemory_store stringify now uid memoryData (Some db)))) =
      map row_importance (rows db) @ [1 / 2]" if "importance memoryData = None" for uid memoryData db
    using that by (simp add: store_opened inserted_row_importance records_def)
  from inv st up df show ?thesis
    by blast
qed

theorem importance_stored_as_passed_witness:
  "map row_importance (records (apply_writes toy_stringify 0
        [Store ''u'' hot_item, Store ''u'' plain_item,
         Update 2 \<lparr>upd_content = None, upd_metadata = None, upd_importance = Some (1 / 4)\<rparr>] empty_store)) =
       [9 / 10, 1 / 4]
   \<and> in_unit (9 / 10) \<and> in_unit (1 / 4)"
proof -
  let ?ws = "[Store ''u'' hot_item, Store ''u'' plain_item,
         Update 2 \<lparr>upd_content = None, upd_metadata = None, upd_importance = Some (1 / 4)\<rparr>]"
  have a: "\<forall>w \<in> set ?ws. case write_importance w of None \<Rightarrow> True | Some v \<Rightarrow> in_unit v"
    by (simp add: in_unit_def hot_item_def plain_item_def)
  have b: "\<forall>r \<in> set (records empty_store). in_unit (row_importance r)"
    by (simp add: empty_store_def records_def)
  have c: "map row_importance (records (apply_writes toy_stringify 0 ?ws empty_store)) = [9 / 10, 1 / 4]"
    by (simp add: apply_writes_def LongTermMemory_store_def LongTermMemory_update_def
      inserted_row_def update_row_def Let_def empty_store_def hot_item_def plain_item_def records_def)
  from importance_stored_as_passed [OF a b, of toy_stringify 0]
  have "\<forall>r \<in> set (records (apply_writes toy_stringify 0 ?ws empty_store)). in_unit (row_importance r)"
    by (rule conjunct1)
  then have "\<forall>v \<in> set (map row_importance (records (apply_writes toy_stringify 0 ?ws empty_store))). in_unit v"
    by simp
  then have "in_unit (9 / 10) \<and> in_unit (1 / 4)"
    unfolding c by simp
  with c show ?thesis
    by simp
qed

text \<open>
  The second statement of \<^verbatim>\<open>cleanup\<close>: with ids that are unique, \<open>delete_oldest\<close> removes
  \<open>excess\<close> rows, and none of them is newer than a row that stays.
\<close>

lemma delete_oldest_oldest:
  assumes d: "distinct (map row_id rs)" and k: "excess \<le> length rs"
  shows "length (delete_oldest excess rs) = length rs - excess"
    and "\<forall>x \<in> set rs - set (delete_oldest excess rs). \<forall>y \<in> set (delete_oldest excess rs).
           row_timestamp x \<le> row_timestamp y"
proof -
  let ?srt = "sort_key row_timestamp rs"
  let ?D = "take excess ?srt" and ?K = "drop excess ?srt"
  have inj: "inj_on row_id (set rs)" and drs: "distinct rs"
    using d by (simp_all add: distinct_map)
  have split: "?srt = ?D @ ?K"
    by simp
  have dsrt: "distinct ?srt"
    using drs by simp
  have sets: "set rs = set ?D \<union> set ?K"
    using set_append [of ?D ?K] by simp
  have disj: "set ?D \<inter> set ?K = {}"
    using dsrt distinct_append [of ?D ?K] by simp
  have mem: "row_id r \<in> row_id ` set ?D \<longleftrightarrow> r \<in> set ?D" if "r \<in> set rs" for r
  proof
    assume "row_id r \<in> row_id ` set ?D"
    then obtain x where x: "x \<in> set ?D" "row_id r = row_id x"
      by auto
    with sets have "x \<in> set rs" by simp
    with inj that x(2) have "r = x" by (auto dest: inj_onD)
    with x(1) show "r \<in> set ?D" by simp
  qed auto
  have eq: "delete_oldest excess rs = filter (\<lambda>r. r \<notin> set ?D) rs"
    unfolding delete_oldest_def Let_def by (rule filter_cong) (simp_all add: mem)
  have kept: "set (delete_oldest excess rs) = set ?K"
    unfolding eq using sets disj by auto
  have "distinct (delete_oldest excess rs)"
    unfolding eq using drs by simp
  then have "length (delete_oldest excess rs) = card (set (delete_oldest excess rs))"
    by (simp only: distinct_card)
  also have "\<dots> = length ?K"
    unfolding kept using dsrt by (simp add: distinct_card)
  finally show "length (delete_oldest excess rs) = length rs - excess"
    by simp
  have "sorted (map row_timestamp ?D @ map row_timestamp ?K)"
    using sorted_sort_key [of row_timestamp rs] by (simp only: map_append [symmetric] append_take_drop_id)
  then have "\<forall>a \<in> set (map row_timestamp ?D). \<forall>b \<in> set (map row_timestamp ?K). a \<le> b"
    unfolding sorted_append by blast
  then have ord: "\<forall>x \<in> set ?D. \<forall>y \<in> set ?K. row_timestamp x \<le> row_timestamp y"
    by simp
  have "set rs - set (delete_oldest excess rs) \<subseteq> set ?D"
    unfolding kept using sets by auto
  with ord show "\<forall>x \<in> set rs - set (delete_oldest excess rs). \<forall>y \<in> set (delete_oldest excess rs).
           row_timestamp x \<le> row_timestamp y"
    unfolding kept by blast
qed

text \<open>
  With unique ids, what a call on the open store removes is what the first statement
  removed, which is the value returned, and the excess over \<open>maxRecords\<close> after it,
  which the value returned leaves out.
\<close>

lemma cleanup_removed:
  assumes "distinct (map row_id (rows db))"
  shows "length (rows db) - length (records (snd (LongTermMemory_cleanup now opts (Some db)))) =
           fst (LongTermMemory_cleanup now opts (Some db))
           + (length (rows db) - fst (LongTermMemory_cleanup now opts (Some db))
              - (case maxRecords opts of None \<Rightarrow> 10000 | Some n \<Rightarrow> n))"
proof -
  let ?cut = "now - int (case maxAge opts of None \<Rightarrow> 365 | Some d \<Rightarrow> d) * 86400000"
  let ?imp = "case minImportance opts of None \<Rightarrow> fround (1 / 10) | Some i \<Rightarrow> i"
  let ?cap = "case maxRecords opts of None \<Rightarrow> 10000 | Some n \<Rightarrow> n"
  let ?rows1 = "filter (\<lambda>r. \<not> expired ?cut ?imp r) (rows db)"
  let ?c1 = "length (filter (expired ?cut ?imp) (rows db))"
  have total: "length ?rows1 + ?c1 = length (rows db)"
    using sum_length_filter_compl [of "expired ?cut ?imp" "rows db"] by simp
  have d1: "distinct (map row_id ?rows1)"
    using assms by (rule distinct_map_filter)
  have ret: "fst (LongTermMemory_cleanup now opts (Some db)) = ?c1"
    by (simp add: LongTermMemory_cleanup_def Let_def)
  show ?thesis
  proof (cases "length ?rows1 > ?cap")
    case True
    then have "length (delete_oldest (length ?rows1 - ?cap) ?rows1) = length ?rows1 - (length ?rows1 - ?cap)"
      by (intro delete_oldest_oldest(1) [OF d1]) simp
    with True have "length (records (snd (LongTermMemory_cleanup now opts (Some db)))) = ?cap"
      by (simp add: LongTermMemory_cleanup_def Let_def records_def)
    with True total show ?thesis
      unfolding ret by simp
  next
    case False
    then have "records (snd (LongTermMemory_cleanup now opts (Some db))) = ?rows1"
      by (simp add: LongTermMemory_cleanup_def Let_def records_def)
    with False total show ?thesis
      unfolding ret by simp
  qed
qed

lemma cleanup_returns_first_phase:
  "fst (LongTermMemory_cleanup now opts (Some db)) =
     length (filter (expired (now - int (case maxAge opts of None \<Rightarrow> 365 | Some d \<Rightarrow> d) * 86400000)
                       (case minImportance opts of None \<Rightarrow> fround (1 / 10) | Some i \<Rightarrow> i)) (rows db))"
  by (simp add: LongTermMemory_cleanup_def Let_def)

text \<open>
  C4. The two statements of \<^verbatim>\<open>cleanup\<close> delete what the claim says, but the value
  returned is \<^verbatim>\<open>result1.changes\<close>: the rows removed by the second statement are logged
  and not counted. Here no record is old, two records exceed \<^verbatim>\<open>maxRecords = 1\<close>, the
  older one is deleted, and the call returns 0 where the claim says 1.
\<close>

theorem cleanup_return_value_misses_second_phase:
  "records two_rows =
     [row_for 1 ''u'' (9 / 10) 1699999999000, row_for 2 ''u'' (9 / 10) 1699999999500]
   \<and> records (snd (LongTermMemory_cleanup 1700000000000
        \<lparr>maxAge = Some 365, minImportance = Some (1 / 10), maxRecords = Some 1\<rparr> two_rows)) =
       [row_for 2 ''u'' (9 / 10) 1699999999500]
   \<and> fst (LongTermMemory_cleanup 1700000000000
        \<lparr>maxAge = Some 365, minImportance = Some (1 / 10), maxRecords = Some 1\<rparr> two_rows) = 0"
  by (simp add: LongTermMemory_cleanup_def Let_def two_rows_def records_def expired_def
      delete_oldest_def row_for_def)

section \<open>Consolidation\<close>

lemma store_important_no_error:
  "fst (store_important stringify now uid ms (Some db)) = None"
  by (induction ms arbitrary: db) (simp_all add: store_opened)

lemma store_important_length:
  "length (records (snd (store_important stringify now uid ms (Some db)))) =
     length (rows db) + length (filter important ms)"
  by (induction ms arbitrary: db) (simp_all add: store_opened records_def)

lemma store_important_prefix:
  "prefix (rows db) (records (snd (store_important stringify now uid ms (Some db))))"
proof (induction ms arbitrary: db)
  case Nil
  then show ?case by (simp add: records_def)
next
  case (Cons m ms)
  show ?case
  proof (cases "important m")
    case True
    let ?db = "db\<lparr>rows := rows db @ [inserted_row stringify now uid m (Suc (last_id db))],
                   last_id := Suc (last_id db)\<rparr>"
    have "prefix (rows ?db) (records (snd (store_important stringify now uid ms (Some ?db))))"
      by (rule Cons.IH)
    then have "prefix (rows db) (records (snd (store_important stringify now uid ms (Some ?db))))"
      by (auto dest: append_prefixD)
    with True show ?thesis
      by (simp add: store_opened)
  next
    case False
    with Cons.IH [of db] show ?thesis by simp
  qed
qed

lemma cleanup_to_80:
  assumes "80 < length (buffer s uid)"
  shows "buffer (ShortTermMemory_cleanup uid 80 s) uid = drop (length (buffer s uid) - 80) (buffer s uid)"
proof (cases "memory s uid")
  case None
  with assms show ?thesis by (simp add: buffer_def)
next
  case (Some um)
  with assms have "80 < length um" by (simp add: buffer_def)
  with Some show ?thesis
    by (simp add: ShortTermMemory_cleanup_def buffer_def trunc_def slice_from_def nat_diff_distrib')
qed

text \<open>
  C1, as stated, fails: with exactly 100 events the test \<^verbatim>\<open>shortTermCount > threshold\<close>
  is false, nothing is stored and the buffer keeps its 100 items.
\<close>

theorem consolidation_at_threshold_counterexample:
  "ShortTermMemory_getCount (shortTermMemory (manager_with 100)) ''u'' = 100
   \<and> length (filter important (ShortTermMemory_getOldest (shortTermMemory (manager_with 100)) ''u'' 20)) = 3
   \<and> MemoryManager_consolidateMemoryIfNeeded toy_stringify 0 None ''u'' (manager_with 100) =
       (None, manager_with 100)
   \<and> records (longTermMemory (manager_with 100)) = []"
proof -
  have hot: "important hot_item"
    by (simp add: important_def hot_item_def seven_tenths)
  have plain: "\<not> important plain_item"
    by (simp add: important_def plain_item_def)
  have c: "ShortTermMemory_getCount (shortTermMemory (manager_with 100)) ''u'' = 100"
    by (simp add: ShortTermMemory_getCount_def manager_with_def)
  have o: "ShortTermMemory_getOldest (shortTermMemory (manager_with 100)) ''u'' 20 =
      replicate 3 hot_item @ replicate 17 plain_item"
    by (simp add: ShortTermMemory_getOldest_def manager_with_def)
  have f: "length (filter important (ShortTermMemory_getOldest (shortTermMemory (manager_with 100)) ''u'' 20)) = 3"
    by (simp add: o hot plain)
  have run: "MemoryManager_consolidateMemoryIfNeeded toy_stringify 0 None ''u'' (manager_with 100) =
       (None, manager_with 100)"
    by (simp add: MemoryManager_consolidateMemoryIfNeeded_def c threshold_of_def)
  have r: "records (longTermMemory (manager_with 100)) = []"
    by (simp add: manager_with_def empty_store_def records_def)
  from c f run r show ?thesis
    by blast
qed

text \<open>
  C1, amended. When the Recent Buffer of a user holds more than 100 events, the
  threshold is the default 100, exactly 3 of the 20 oldest events have an importance
  above 0.7 and the Durable Store is open, the consolidation step appends exactly 3
  records to the Durable Store and cuts the user's buffer to its 80 most recent items.
\<close>

theorem consolidation_over_threshold:
  assumes "100 < ShortTermMemory_getCount (shortTermMemory mm) uid"
      and "length (filter important (ShortTermMemory_getOldest (shortTermMemory mm) uid 20)) = 3"
      and "longTermMemory mm = Some db"
  shows "fst (MemoryManager_consolidateMemoryIfNeeded stringify now None uid mm) = None
       \<and> length (records (longTermMemory (snd (MemoryManager_consolidateMemoryIfNeeded stringify now None uid mm)))) =
           length (records (longTermMemory mm)) + 3
       \<and> prefix (records (longTermMemory mm))
           (records (longTermMemory (snd (MemoryManager_consolidateMemoryIfNeeded stringify now None uid mm))))
       \<and> ShortTermMemory_getCount
           (shortTermMemory (snd (MemoryManager_consolidateMemoryIfNeeded stringify now None uid mm))) uid = 80
       \<and> buffer (shortTermMemory (snd (MemoryManager_consolidateMemoryIfNeeded stringify now None uid mm))) uid =
           drop (ShortTermMemory_getCount (shortTermMemory mm) uid - 80) (buffer (shortTermMemory mm) uid)"
proof -
  let ?old = "ShortTermMemory_getOldest (shortTermMemory mm) uid 20"
  let ?res = "store_important stringify now uid ?old (Some db)"
  have over: "int (ShortTermMemory_getCount (shortTermMemory mm) uid) > threshold_of None"
    using assms(1) by (simp add: threshold_of_def)
  have e: "fst ?res = None"
    by (rule store_important_no_error)
  then obtain ltm' where res: "?res = (None, ltm')"
    by (cases ?res) auto
  have run: "MemoryManager_consolidateMemoryIfNeeded stringify now None uid mm =
      (None, mm\<lparr>longTermMemory := ltm',
                shortTermMemory := ShortTermMemory_cleanup uid 80 (shortTermMemory mm)\<rparr>)"
    using over assms(3) res
    by (simp add: MemoryManager_consolidateMemoryIfNeeded_def Let_def threshold_of_def keep_count_default)
  have len: "length (records ltm') = length (rows db) + 3"
    using store_important_length [of stringify now uid ?old db] res assms(2) by simp
  have pre: "prefix (rows db) (records ltm')"
    using store_important_prefix [of db stringify now uid ?old] res by simp
  have big: "80 < length (buffer (shortTermMemory mm) uid)"
    using assms(1) by (simp add: getCount_buffer)
  have buf: "buffer (ShortTermMemory_cleanup uid 80 (shortTermMemory mm)) uid =
      drop (length (buffer (shortTermMemory mm) uid) - 80) (buffer (shortTermMemory mm) uid)"
    using big by (rule cleanup_to_80)
  have cnt: "ShortTermMemory_getCount (ShortTermMemory_cleanup uid 80 (shortTermMemory mm)) uid = 80"
    using big by (simp add: getCount_buffer buf)
  show ?thesis
    using len pre buf cnt assms(3) by (simp add: run records_def getCount_buffer)
qed

theorem consolidation_over_threshold_witness:
  "100 < ShortTermMemory_getCount (shortTermMemory (manager_with 101)) ''u''
   \<and> length (filter important (ShortTermMemory_getOldest (shortTermMemory (manager_with 101)) ''u'' 20)) = 3
   \<and> length (records (longTermMemory
        (snd (MemoryManager_consolidateMemoryIfNeeded toy_stringify 0 None ''u'' (manager_with 101))))) = 3
   \<and> ShortTermMemory_getCount (shortTermMemory
        (snd (MemoryManager_consolidateMemoryIfNeeded toy_stringify 0 None ''u'' (manager_with 101)))) ''u'' = 80"
proof -
  have hot: "important hot_item"
    by (simp add: important_def hot_item_def seven_tenths)
  have plain: "\<not> important plain_item"
    by (simp add: important_def plain_item_def)
  have c: "100 < ShortTermMemory_getCount (shortTermMemory (manager_with 101)) ''u''"
    by (simp add: ShortTermMemory_getCount_def manager_with_def)
  have o: "length (filter important (ShortTermMemory_getOldest (shortTermMemory (manager_with 101)) ''u'' 20)) = 3"
    by (simp add: ShortTermMemory_getOldest_def manager_with_def hot plain)
  have d: "longTermMemory (manager_with 101) = Some \<lparr>rows = [], last_id = 0\<rparr>"
    by (simp add: manager_with_def empty_store_def)
  from consolidation_over_threshold [OF c o d, of toy_stringify 0] c o show ?thesis
    by (simp add: d records_def)
qed

section \<open>Importance scoring\<close>

lemma add_steps_high:
  "h = Suc h' \<Longrightarrow> add_steps h' 0 = v \<Longrightarrow> fadd v (fround (1 / 5)) = w \<Longrightarrow> add_steps h 0 = w"
  by (simp add: add_steps_def)

lemma add_steps_tenth:
  "k = Suc k' \<Longrightarrow> add_steps h k' = v \<Longrightarrow> fadd v (fround (1 / 10)) = w \<Longrightarrow> add_steps h k = w"
  by (simp add: add_steps_def)

text \<open>The scores for up to four additions of \<^verbatim>\<open>0.2\<close> and six of \<^verbatim>\<open>0.1\<close>, one rounded addition at a time.\<close>

lemma steps_0_0: "add_steps 0 0 = 1 / 2"
  by (simp add: add_steps_def)

lemma steps_0_1: "add_steps 0 1 = 5404319552844595 / 9007199254740992"
  by (rule add_steps_tenth [OF _ steps_0_0]) (simp_all add: one_tenth float_eval)

lemma steps_0_2: "add_steps 0 2 = 3152519739159347 / 4503599627370496"
  by (rule add_steps_tenth [OF _ steps_0_1]) (simp_all add: one_tenth float_eval)

lemma steps_0_3: "add_steps 0 3 = 7205759403792793 / 9007199254740992"
  by (rule add_steps_tenth [OF _ steps_0_2]) (simp_all add: one_tenth float_eval)

lemma steps_0_4: "add_steps 0 4 = 2026619832316723 / 2251799813685248"
  by (rule add_steps_tenth [OF _ steps_0_3]) (simp_all add: one_tenth float_eval)

lemma steps_0_5: "add_steps 0 5 = 9007199254740991 / 9007199254740992"
  by (rule add_steps_tenth [OF _ steps_0_4]) (simp_all add: one_tenth float_eval)

lemma steps_0_6: "add_steps 0 6 = 4953959590107545 / 4503599627370496"
  by (rule add_steps_tenth [OF _ steps_0_5]) (simp_all add: one_tenth float_eval)

lemma steps_1_0: "add_steps 1 0 = 3152519739159347 / 4503599627370496"
  by (rule add_steps_high [OF _ steps_0_0]) (simp_all add: one_fifth float_eval)

lemma steps_1_1: "add_steps 1 1 = 7205759403792793 / 9007199254740992"
  by (rule add_steps_tenth [OF _ steps_1_0]) (simp_all add: one_tenth float_eval)

lemma steps_1_2: "add_steps 1 2 = 2026619832316723 / 2251799813685248"
  by (rule add_steps_tenth [OF _ steps_1_1]) (simp_all add: one_tenth float_eval)

lemma steps_1_3: "add_steps 1 3 = 9007199254740991 / 9007199254740992"
  by (rule add_steps_tenth [OF _ steps_1_2]) (simp_all add: one_tenth float_eval)

lemma steps_1_4: "add_steps 1 4 = 4953959590107545 / 4503599627370496"
  by (rule add_steps_tenth [OF _ steps_1_3]) (simp_all add: one_tenth float_eval)

lemma steps_1_5: "add_steps 1 5 = 5404319552844595 / 4503599627370496"
  by (rule add_steps_tenth [OF _ steps_1_4]) (simp_all add: one_tenth float_eval)

lemma steps_1_6: "add_steps 1 6 = 5854679515581645 / 4503599627370496"
  by (rule add_steps_tenth [OF _ steps_1_5]) (simp_all add: one_tenth float_eval)

lemma steps_2_0: "add_steps 2 0 = 2026619832316723 / 2251799813685248"
  by (rule add_steps_high [OF _ steps_1_0]) (simp_all add: one_fifth float_eval)

lemma steps_2_1: "add_steps 2 1 = 9007199254740991 / 9007199254740992"
  by (rule add_steps_tenth [OF _ steps_2_0]) (simp_all add: one_tenth float_eval)

lemma steps_2_2: "add_steps 2 2 = 4953959590107545 / 4503599627370496"
  by (rule add_steps_tenth [OF _ steps_2_1]) (simp_all add: one_tenth float_eval)

lemma steps_2_3: "add_steps 2 3 = 5404319552844595 / 4503599627370496"
  by (rule add_steps_tenth [OF _ steps_2_2]) (simp_all add: one_tenth float_eval)

lemma steps_2_4: "add_steps 2 4 = 5854679515581645 / 4503599627370496"
  by (rule add_steps_tenth [OF _ steps_2_3]) (simp_all add: one_tenth float_eval)

lemma steps_2_5: "add_steps 2 5 = 6305039478318695 / 4503599627370496"
  by (rule add_steps_tenth [OF _ steps_2_4]) (simp_all add: one_tenth float_eval)

lemma steps_2_6: "add_steps 2 6 = 6755399441055745 / 4503599627370496"
  by (rule add_steps_tenth [OF _ steps_2_5]) (simp_all add: one_tenth float_eval)

lemma steps_3_0: "add_steps 3 0 = 4953959590107545 / 4503599627370496"
  by (rule add_steps_high [OF _ steps_2_0]) (simp_all add: one_fifth float_eval)

lemma steps_3_1: "add_steps 3 1 = 5404319552844595 / 4503599627370496"
  by (rule add_steps_tenth [OF _ steps_3_0]) (simp_all add: one_tenth float_eval)

lemma steps_3_2: "add_steps 3 2 = 5854679515581645 / 4503599627370496"
  by (rule add_steps_tenth [OF _ steps_3_1]) (simp_all add: one_tenth float_eval)

lemma steps_3_3: "add_steps 3 3 = 6305039478318695 / 4503599627370496"
  by (rule add_steps_tenth [OF _ steps_3_2]) (simp_all add: one_tenth float_eval)

lemma steps_3_4: "add_steps 3 4 = 6755399441055745 / 4503599627370496"
  by (rule add_steps_tenth [OF _ steps_3_3]) (simp_all add: one_tenth float_eval)

lemma steps_3_5: "add_steps 3 5 = 7205759403792795 / 4503599627370496"
  by (rule add_steps_tenth [OF _ steps_3_4]) (simp_all add: one_tenth float_eval)

lemma steps_3_6: "add_steps 3 6 = 7656119366529845 / 4503599627370496"
  by (rule add_steps_tenth [OF _ steps_3_5]) (simp_all add: one_tenth float_eval)

lemma steps_4_0: "add_steps 4 0 = 1463669878895411 / 1125899906842624"
  by (rule add_steps_high [OF _ steps_3_0]) (simp_all add: one_fifth float_eval)

lemma steps_4_1: "add_steps 4 1 = 3152519739159347 / 2251799813685248"
  by (rule add_steps_tenth [OF _ steps_4_0]) (simp_all add: one_tenth float_eval)

lemma steps_4_2: "add_steps 4 2 = 3 / 2"
  by (rule add_steps_tenth [OF _ steps_4_1]) (simp_all add: one_tenth float_eval)

lemma steps_4_3: "add_steps 4 3 = 3602879701896397 / 2251799813685248"
  by (rule add_steps_tenth [OF _ steps_4_2]) (simp_all add: one_tenth float_eval)

lemma steps_4_4: "add_steps 4 4 = 1914029841632461 / 1125899906842624"
  by (rule add_steps_tenth [OF _ steps_4_3]) (simp_all add: one_tenth float_eval)

lemma steps_4_5: "add_steps 4 5 = 4053239664633447 / 2251799813685248"
  by (rule add_steps_tenth [OF _ steps_4_4]) (simp_all add: one_tenth float_eval)

lemma steps_4_6: "add_steps 4 6 = 1069604911500493 / 562949953421312"
  by (rule add_steps_tenth [OF _ steps_4_5]) (simp_all add: one_tenth float_eval)

lemmas steps_table =
  steps_0_0 steps_0_1 steps_0_2 steps_0_3 steps_0_4 steps_0_5 steps_0_6
  steps_1_0 steps_1_1 steps_1_2 steps_1_3 steps_1_4 steps_1_5 steps_1_6
  steps_2_0 steps_2_1 steps_2_2 steps_2_3 steps_2_4 steps_2_5 steps_2_6
  steps_3_0 steps_3_1 steps_3_2 steps_3_3 steps_3_4 steps_3_5 steps_3_6
  steps_4_0 steps_4_1 steps_4_2 steps_4_3 steps_4_4 steps_4_5 steps_4_6

lemma steps_bounds:
  assumes "h \<le> 4" and "k \<le> 6"
  shows "min 1 (1 / 2 + 1 / 5 * real h + 1 / 10 * real k) - 1 / 2 ^ 53 \<le> min (add_steps h k) 1
       \<and> min (add_steps h k) 1 \<le> min 1 (1 / 2 + 1 / 5 * real h + 1 / 10 * real k)"
proof -
  from assms have "h \<in> {0, 1, 2, 3, 4}" and "k \<in> {0, 1, 2, 3, 4, 5, 6}"
    by auto
  then show ?thesis
    by (elim insertE emptyE; simp add: steps_table del: One_nat_def)
qed

lemma foldl_conditional:
  "foldl (\<lambda>acc k. if P k then g acc else acc) x ks = (g ^^ length (filter P ks)) x"
  by (induction ks arbitrary: x) (simp_all add: funpow_swap1)

lemma foldl_bump:
  "foldl (bump d text) x ks =
     ((\<lambda>v. fadd v (fround d)) ^^ length (filter (str_includes text) ks)) x"
proof -
  have "bump d text = (\<lambda>acc k. if str_includes text k then (\<lambda>v. fadd v (fround d)) acc else acc)"
    by (intro ext) (simp add: bump_def)
  then show ?thesis
    by (simp only: foldl_conditional)
qed

lemma calculateImportance_steps:
  "calculateImportance userMsg botResp =
     min (add_steps (high_count userMsg botResp) (tenth_count userMsg botResp)) 1"
  by (simp add: calculateImportance_def Let_def foldl_bump add_steps_def high_count_def
      tenth_count_def)

lemma hits_length:
  assumes "distinct ks"
  shows "hits ks text = length (filter (str_includes text) ks)"
proof -
  have "{k \<in> set ks. str_includes text k} = {k. str_includes text k} \<inter> set ks"
    by auto
  with assms show ?thesis
    by (simp add: hits_def distinct_length_filter)
qed

lemma exact_score_counts:
  "exact_score userMsg botResp =
     min 1 (1 / 2 + 1 / 5 * real (high_count userMsg botResp) + 1 / 10 * real (tenth_count userMsg botResp))"
proof -
  have "distinct highImportanceKeywords" "distinct mediumImportanceKeywords"
    by (simp_all add: highImportanceKeywords_def mediumImportanceKeywords_def)
  then show ?thesis
    by (simp add: exact_score_def hits_length high_count_def tenth_count_def algebra_simps)
qed

lemma count_bounds: "high_count userMsg botResp \<le> 4" "tenth_count userMsg botResp \<le> 6"
proof -
  have "length (filter (str_includes (messageText userMsg botResp)) highImportanceKeywords)
      \<le> length highImportanceKeywords"
    by (rule length_filter_le)
  then show "high_count userMsg botResp \<le> 4"
    by (simp add: high_count_def highImportanceKeywords_def)
  have "length (filter (str_includes (messageText userMsg botResp)) mediumImportanceKeywords)
      \<le> length mediumImportanceKeywords"
    by (rule length_filter_le)
  then show "tenth_count userMsg botResp \<le> 6"
    by (simp add: tenth_count_def mediumImportanceKeywords_def)
qed

lemma urgent_important_counts:
  "high_count ''this is urgent and important'' ''ok'' = 2"
  "tenth_count ''this is urgent and important'' ''ok'' = 0"
  by (simp_all add: high_count_def tenth_count_def messageText_def toLowerCase_def lower_char_def
      highImportanceKeywords_def mediumImportanceKeywords_def)

lemma hi_hello_counts:
  "high_count ''hi'' ''hello'' = 0"
  "tenth_count ''hi'' ''hello'' = 0"
  by (simp_all add: high_count_def tenth_count_def messageText_def toLowerCase_def lower_char_def
      highImportanceKeywords_def mediumImportanceKeywords_def)

text \<open>
  C6, as stated, fails: the score is a sum of doubles. For \<^verbatim>\<open>"this is urgent and important"\<close>
  the exact sum is \<open>9 / 10\<close>, the value computed is \<^verbatim>\<open>0.5 + 0.2 + 0.2\<close>, the double
  \<^verbatim>\<open>0.8999999999999999\<close>, which is neither \<open>9 / 10\<close> nor the double \<^verbatim>\<open>0.9\<close>.
\<close>

theorem calculateImportance_counterexample:
  "exact_score ''this is urgent and important'' ''ok'' = 9 / 10
   \<and> calculateImportance ''this is urgent and important'' ''ok'' = 8106479329266892 / 2 ^ 53
   \<and> calculateImportance ''this is urgent and important'' ''ok'' \<noteq> 9 / 10
   \<and> calculateImportance ''this is urgent and important'' ''ok'' \<noteq> fround (9 / 10)"
  by (simp add: exact_score_counts calculateImportance_steps urgent_important_counts steps_2_0
      nine_tenths)

text \<open>
  C6, amended. The score is the sum, in doubles, of 0.5, 0.2 for each distinct
  high-importance keyword and 0.1 for each distinct medium-importance keyword that
  occurs in the lower-cased text, 0.1 for a response longer than 500 and 0.1 for a
  message longer than 200, cut to 1.0. It is never above the exact value of that sum
  and less than it by at most \<open>1 / 2 ^ 53\<close>; it is \<^verbatim>\<open>0.8999999999999999\<close> for
  \<^verbatim>\<open>("this is urgent and important", "ok")\<close> and \<^verbatim>\<open>0.5\<close> for \<^verbatim>\<open>("hi", "hello")\<close>. As a
  function of the two strings it is deterministic.
\<close>

theorem calculateImportance_close_to_exact:
  "exact_score userMsg botResp - 1 / 2 ^ 53 \<le> calculateImportance userMsg botResp
   \<and> calculateImportance userMsg botResp \<le> exact_score userMsg botResp
   \<and> calculateImportance userMsg botResp =
       min (add_steps (hits highImportanceKeywords (messageText userMsg botResp))
              (hits mediumImportanceKeywords (messageText userMsg botResp)
               + (if length botResp > 500 then 1 else 0) + (if length userMsg > 200 then 1 else 0))) 1
   \<and> calculateImportance ''this is urgent and important'' ''ok'' = 8106479329266892 / 2 ^ 53
   \<and> calculateImportance ''hi'' ''hello'' = 1 / 2"
proof -
  have d: "distinct highImportanceKeywords" "distinct mediumImportanceKeywords"
    by (simp_all add: highImportanceKeywords_def mediumImportanceKeywords_def)
  have b: "exact_score userMsg botResp - 1 / 2 ^ 53 \<le> calculateImportance userMsg botResp
      \<and> calculateImportance userMsg botResp \<le> exact_score userMsg botResp"
    unfolding exact_score_counts calculateImportance_steps
    by (rule steps_bounds) (rule count_bounds)+
  have s: "calculateImportance userMsg botResp =
       min (add_steps (hits highImportanceKeywords (messageText userMsg botResp))
              (hits mediumImportanceKeywords (messageText userMsg botResp)
               + (if length botResp > 500 then 1 else 0) + (if length userMsg > 200 then 1 else 0))) 1"
    by (simp add: calculateImportance_steps hits_length d high_count_def tenth_count_def)
  have u: "calculateImportance ''this is urgent and important'' ''ok'' = 8106479329266892 / 2 ^ 53"
    by (simp add: calculateImportance_steps urgent_important_counts steps_2_0)
  have h: "calculateImportance ''hi'' ''hello'' = 1 / 2"
    by (simp add: calculateImportance_steps hi_hello_counts steps_0_0)
  from b s u h show ?thesis
    by blast
qed

theorem calculateImportance_close_to_exact_witness:
  "exact_score ''Project deadline'' ''ok'' = 7 / 10
   \<and> 7 / 10 - 1 / 2 ^ 53 \<le> calculateImportance ''Project deadline'' ''ok''
   \<and> calculateImportance ''Project deadline'' ''ok'' \<le> 7 / 10"
proof -
  have "high_count ''Project deadline'' ''ok'' = 0" "tenth_count ''Project deadline'' ''ok'' = 2"
    by (simp_all add: high_count_def tenth_count_def messageText_def toLowerCase_def lower_char_def
        char_of_def bit_Suc_0_iff highImportanceKeywords_def mediumImportanceKeywords_def)
  then have e: "exact_score ''Project deadline'' ''ok'' = 7 / 10"
    by (simp add: exact_score_counts)
  note th = calculateImportance_close_to_exact [of "''Project deadline''" "''ok''"]
  from th have "exact_score ''Project deadline'' ''ok'' - 1 / 2 ^ 53
      \<le> calculateImportance ''Project deadline'' ''ok''"
    by (rule conjunct1)
  moreover from th have "calculateImportance ''Project deadline'' ''ok''
      \<le> exact_score ''Project deadline'' ''ok''"
    by (rule conjunct1 [OF conjunct2])
  ultimately show ?thesis
    unfolding e by simp
qed

end
